theory Spec2Isabelle
  imports Complex_Main "HOL-Library.Sublist"
begin

section \<open>JavaScript strings\<close>

text \<open>
  A JavaScript string is a sequence of UTF-16 code units; a code unit is a natural number.
  \<open>js\<close> turns an ASCII literal into such a string. The two non-ASCII characters of the
  report template are written by their code units: the bullet is \<open>0x2022\<close> and the degree
  sign is \<open>0xB0\<close>.
\<close>

type_synonym js_string = "nat list"

definition js :: "string \<Rightarrow> js_string" where
  "js s = map of_char s"

definition newline :: nat where
  "newline = 10"

definition bullet :: nat where
  "bullet = 0x2022"

definition degree_sign :: nat where
  "degree_sign = 0xB0"

text \<open>\<open>Array.prototype.join\<close> on an array of strings.\<close>

fun join :: "js_string \<Rightarrow> js_string list \<Rightarrow> js_string" where
  "join sep [] = []"
| "join sep [x] = x"
| "join sep (x # y # ys) = x @ sep @ join sep (y # ys)"

text \<open>
  \<open>String.prototype.split\<close> with a one-character separator: the empty string gives one
  empty piece, and \<open>n\<close> separators give \<open>n + 1\<close> pieces.
\<close>

fun split :: "nat \<Rightarrow> js_string \<Rightarrow> js_string list" where
  "split sep [] = [[]]"
| "split sep (c # cs) =
     (if c = sep then [] # split sep cs
      else (case split sep cs of
              [] \<Rightarrow> [[c]]
            | l # ls \<Rightarrow> (c # l) # ls))"

text \<open>
  The characters \<open>String.prototype.trim\<close> strips: ECMAScript WhiteSpace (tab, vertical
  tab, form feed, space, no-break space, the byte order mark and the Unicode space
  separators) and LineTerminator (line feed, carriage return, U+2028, U+2029).
\<close>

definition is_whitespace :: "nat \<Rightarrow> bool" where
  "is_whitespace c \<longleftrightarrow>
     c = 0x09 \<or> c = 0x0A \<or> c = 0x0B \<or> c = 0x0C \<or> c = 0x0D \<or> c = 0x20 \<or> c = 0xA0
     \<or> c = 0x1680 \<or> (0x2000 \<le> c \<and> c \<le> 0x200A) \<or> c = 0x2028 \<or> c = 0x2029
     \<or> c = 0x202F \<or> c = 0x205F \<or> c = 0x3000 \<or> c = 0xFEFF"

definition trim :: "js_string \<Rightarrow> js_string" where
  "trim s = rev (dropWhile is_whitespace (rev (dropWhile is_whitespace s)))"

text \<open>A string is truthy when it is not empty.\<close>

definition truthy_string :: "js_string \<Rightarrow> bool" where
  "truthy_string s \<longleftrightarrow> s \<noteq> []"

section \<open>JavaScript numbers\<close>

text \<open>
  A Number is an IEEE 754 double: a finite value (carried as the rational it denotes),
  an infinity, or NaN. The sign of zero is not modelled: the program only multiplies,
  divides by ten, rounds, compares and prints numbers, and \<open>-0\<close> prints as \<open>0\<close>.
\<close>

datatype js_number = Fin rat | PosInf | NegInf | NaN

definition bpow :: "int \<Rightarrow> int \<Rightarrow> rat" where
  "bpow b e = (if 0 \<le> e then of_int b ^ nat e else 1 / of_int b ^ nat (- e))"

text \<open>The number of digits of \<open>n \<ge> 0\<close> in base \<open>b\<close>.\<close>

function num_digits :: "int \<Rightarrow> int \<Rightarrow> int" where
  "num_digits b n = (if n < b \<or> b < 2 then 1 else 1 + num_digits b (n div b))"
  by pat_completeness auto
termination
proof (relation "measure (\<lambda>(b, n). nat n)")
  fix b n :: int
  assume "\<not> (n < b \<or> b < 2)"
  then have "n div b < n" and "0 < n"
    by (simp_all add: int_div_less_self)
  then show "((b, n div b), (b, n)) \<in> measure (\<lambda>(b, n). nat n)"
    by simp
qed simp

declare num_digits.simps [simp del]

text \<open>
  For \<open>x > 0\<close>, the integer \<open>e\<close> with \<open>b ^ e \<le> x < b ^ (e + 1)\<close>: for \<open>x \<ge> 1\<close> it is one
  less than the number of digits of \<open>\<lfloor>x\<rfloor>\<close>; for \<open>x < 1\<close> it is \<open>- j\<close> for the \<open>j\<close> with
  \<open>b ^ (j - 1) < 1 / x \<le> b ^ j\<close>, the number of digits of \<open>\<lceil>1 / x\<rceil> - 1\<close>.
\<close>

definition floor_log :: "int \<Rightarrow> rat \<Rightarrow> int" where
  "floor_log b x =
     (if 1 \<le> x then num_digits b \<lfloor>x\<rfloor> - 1 else - num_digits b (\<lceil>1 / x\<rceil> - 1))"

definition round_tie_even :: "int \<Rightarrow> rat \<Rightarrow> int" where
  "round_tie_even f r =
     (if r < 1 / 2 then f
      else if 1 / 2 < r then f + 1
      else if even f then f else f + 1)"

definition round_half_even :: "rat \<Rightarrow> int" where
  "round_half_even y = round_tie_even \<lfloor>y\<rfloor> (y - of_int \<lfloor>y\<rfloor>)"

text \<open>
  Rounding a real result to the nearest double, ties to even: 53 significant bits, the
  exponent no smaller than that of the subnormals, and overflow to an infinity.
  \<open>ulp_of a\<close> is the spacing of the doubles around \<open>a > 0\<close>.
\<close>

definition ulp_of :: "rat \<Rightarrow> rat" where
  "ulp_of a = bpow 2 (max (floor_log 2 a) (- 1022) - 52)"

definition round_to :: "rat \<Rightarrow> rat \<Rightarrow> rat" where
  "round_to ulp a = of_int (round_half_even (a / ulp)) * ulp"

definition signed_infinity :: "bool \<Rightarrow> js_number" where
  "signed_infinity neg = (if neg then NegInf else PosInf)"

definition finite_or_infinity :: "bool \<Rightarrow> rat \<Rightarrow> js_number" where
  "finite_or_infinity neg v =
     (if bpow 2 1024 \<le> v then signed_infinity neg else Fin (if neg then - v else v))"

definition to_double :: "rat \<Rightarrow> js_number" where
  "to_double x =
     (if x = 0 then Fin 0 else finite_or_infinity (x < 0) (round_to (ulp_of \<bar>x\<bar>) \<bar>x\<bar>))"

fun is_zero :: "js_number \<Rightarrow> bool" where
  "is_zero (Fin a) = (a = 0)"
| "is_zero _ = False"

fun is_negative :: "js_number \<Rightarrow> bool" where
  "is_negative (Fin a) = (a < 0)"
| "is_negative NegInf = True"
| "is_negative _ = False"

text \<open>The operator \<open>*\<close> on Numbers.\<close>

fun js_mul :: "js_number \<Rightarrow> js_number \<Rightarrow> js_number" where
  "js_mul NaN y = NaN"
| "js_mul x NaN = NaN"
| "js_mul (Fin a) (Fin b) = to_double (a * b)"
| "js_mul x y =
     (if is_zero x \<or> is_zero y then NaN
      else signed_infinity (is_negative x \<noteq> is_negative y))"

text \<open>The operator \<open>/\<close> on Numbers (a zero divisor is taken as \<open>+0\<close>).\<close>

fun js_div :: "js_number \<Rightarrow> js_number \<Rightarrow> js_number" where
  "js_div NaN y = NaN"
| "js_div x NaN = NaN"
| "js_div (Fin a) (Fin b) =
     (if b = 0 then (if a = 0 then NaN else signed_infinity (a < 0))
      else to_double (a / b))"
| "js_div (Fin a) y = Fin 0"
| "js_div x (Fin b) = signed_infinity (is_negative x \<noteq> (b < 0))"
| "js_div x y = NaN"

text \<open>
  \<open>Math.round\<close>: the nearest integer, a tie going towards plus infinity. For a double
  this integer is again a double, so no second rounding is needed.
\<close>

fun Math_round :: "js_number \<Rightarrow> js_number" where
  "Math_round (Fin x) = Fin (of_int \<lfloor>x + 1 / 2\<rfloor>)"
| "Math_round x = x"

text \<open>The relational operators \<open><\<close> and \<open>></\<close>; every comparison with NaN is false.\<close>

fun js_less :: "js_number \<Rightarrow> js_number \<Rightarrow> bool" where
  "js_less NaN y = False"
| "js_less x NaN = False"
| "js_less (Fin a) (Fin b) = (a < b)"
| "js_less NegInf y = (y \<noteq> NegInf)"
| "js_less x PosInf = (x \<noteq> PosInf)"
| "js_less x y = False"

definition js_greater :: "js_number \<Rightarrow> js_number \<Rightarrow> bool" where
  "js_greater x y = js_less y x"

subsection \<open>Number to string\<close>

text \<open>
  \<open>Number::toString\<close> in radix 10, which a template literal applies to a Number: among
  the decimal numerals \<open>s * 10 ^ (n - k)\<close> with \<open>k\<close> digits that read back as the same
  double, take the smallest \<open>k\<close> and then the numeral closest to the value; print it
  plainly when \<open>-6 < n \<le> 21\<close> and with an exponent otherwise.
\<close>

function digits_of :: "int \<Rightarrow> js_string" where
  "digits_of n =
     (if n < 10 then [48 + nat n] else digits_of (n div 10) @ [48 + nat (n mod 10)])"
  by pat_completeness auto
termination
proof (relation "measure (\<lambda>n. nat n)")
  fix n :: int
  assume "\<not> n < 10"
  then have "n div 10 < n" and "0 < n"
    by (simp_all add: int_div_less_self)
  then show "(n div 10, n) \<in> measure (\<lambda>n. nat n)"
    by simp
qed simp

declare digits_of.simps [simp del]

text \<open>
  With \<open>sc = 10 ^ (n - k)\<close>, the candidates with \<open>k\<close> digits are the two numerals
  \<open>\<lfloor>x / sc\<rfloor> * sc\<close> and \<open>(\<lfloor>x / sc\<rfloor> + 1) * sc\<close> around the value; when both read back
  as \<open>x\<close>, the closer one is taken, the even one on a tie.
\<close>

definition reads_back :: "rat \<Rightarrow> rat \<Rightarrow> int \<Rightarrow> bool" where
  "reads_back x sc s \<longleftrightarrow> to_double (of_int s * sc) = Fin x"

definition has_digits :: "rat \<Rightarrow> rat \<Rightarrow> bool" where
  "has_digits x sc \<longleftrightarrow> reads_back x sc \<lfloor>x / sc\<rfloor> \<or> reads_back x sc (\<lfloor>x / sc\<rfloor> + 1)"

definition best_digits :: "rat \<Rightarrow> rat \<Rightarrow> int" where
  "best_digits x sc =
     (if reads_back x sc \<lfloor>x / sc\<rfloor>
      then (if reads_back x sc (\<lfloor>x / sc\<rfloor> + 1) then round_half_even (x / sc) else \<lfloor>x / sc\<rfloor>)
      else \<lfloor>x / sc\<rfloor> + 1)"

text \<open>A candidate \<open>10 ^ k\<close> is the power of ten with one digit and the next exponent.\<close>

definition normalise_digits :: "nat \<Rightarrow> int \<Rightarrow> int \<Rightarrow> int \<times> int" where
  "normalise_digits k n s = (if s = 10 ^ k then (10 ^ (k - 1), n + 1) else (s, n))"

text \<open>
  The search for the smallest \<open>k\<close>, with \<open>n = \<lfloor>log 10 x\<rfloor> + 1\<close>; seventeen digits always
  identify a double, so it stops there. The result is \<open>(s, n)\<close>.
\<close>

function shortest_digits :: "rat \<Rightarrow> int \<Rightarrow> nat \<Rightarrow> int \<times> int" where
  "shortest_digits x n k =
     (if 17 \<le> k then normalise_digits 17 n (round_half_even (x / bpow 10 (n - 17)))
      else if has_digits x (bpow 10 (n - int k))
      then normalise_digits k n (best_digits x (bpow 10 (n - int k)))
      else shortest_digits x n (Suc k))"
  by pat_completeness auto
termination
  by (relation "measure (\<lambda>(x, n, k). 17 - k)") auto

declare shortest_digits.simps [simp del]

definition exponent_part :: "int \<Rightarrow> js_string" where
  "exponent_part e = js ''e'' @ (if e < 0 then js ''-'' else js ''+'') @ digits_of \<bar>e\<bar>"

definition format_digits :: "js_string \<Rightarrow> int \<Rightarrow> js_string" where
  "format_digits ds n =
     (if int (length ds) \<le> n \<and> n \<le> 21 then ds @ replicate (nat (n - int (length ds))) 48
      else if 0 < n \<and> n \<le> 21 then take (nat n) ds @ js ''.'' @ drop (nat n) ds
      else if - 6 < n \<and> n \<le> 0 then js ''0.'' @ replicate (nat (- n)) 48 @ ds
      else if length ds = 1 then ds @ exponent_part (n - 1)
      else take 1 ds @ js ''.'' @ drop 1 ds @ exponent_part (n - 1))"

definition format_decimal :: "int \<times> int \<Rightarrow> js_string" where
  "format_decimal sn = format_digits (digits_of (fst sn)) (snd sn)"

definition positive_to_string :: "rat \<Rightarrow> js_string" where
  "positive_to_string x = format_decimal (shortest_digits x (floor_log 10 x + 1) 1)"

fun number_to_string :: "js_number \<Rightarrow> js_string" where
  "number_to_string NaN = js ''NaN''"
| "number_to_string PosInf = js ''Infinity''"
| "number_to_string NegInf = js ''-Infinity''"
| "number_to_string (Fin x) =
     (if x = 0 then js ''0''
      else if x < 0 then js ''-'' @ positive_to_string (- x)
      else positive_to_string x)"

declare number_to_string.simps [simp del]

declare js_mul.simps [simp del] js_div.simps [simp del] Math_round.simps [simp del]

text \<open>The Number a decimal literal \<open>m * 10 ^ e\<close> denotes, as \<open>JSON.parse\<close> reads it.\<close>

definition decimal :: "int \<Rightarrow> int \<Rightarrow> js_number" where
  "decimal m e = to_double (of_int m * bpow 10 e)"

section \<open>JavaScript values and thrown values\<close>

text \<open>
  The values \<open>JSON.parse\<close> produces, and \<open>undefined\<close>. An object is its list of
  properties in enumeration order, one entry per key.
\<close>

datatype js_value =
    JUndefined
  | JNull
  | JBool bool
  | JNumber js_number
  | JString js_string
  | JArray "js_value list"
  | JObject "(js_string \<times> js_value) list"

text \<open>
  What a \<open>throw\<close> or a rejected promise carries: a \<open>ZodError\<close> with its issues, any
  other \<open>Error\<close> instance with its message (\<open>TypeError\<close> and \<open>SyntaxError\<close> are such),
  or a value that is not an \<open>Error\<close> instance.
\<close>

datatype zod_issue =
    invalid_type "js_string list" js_string js_string
  | too_small "js_string list" js_number
  | too_big "js_string list" js_number

datatype js_thrown = ZodError "zod_issue list" | Error js_string | NonError

text \<open>The \<open>ErrorCode\<close> enumeration and the arguments of \<open>new McpError(code, message)\<close>.\<close>

datatype ErrorCode = MethodNotFound | InvalidParams | InternalError

datatype mcp_error = McpError ErrorCode js_string

text \<open>
  Reading an own property \<open>v.key\<close>. It is used for the keys \<open>method\<close>, \<open>id\<close>,
  \<open>latitude\<close> and \<open>longitude\<close>, which no prototype defines, so every value other than
  an object with that key gives \<open>undefined\<close>; on \<open>null\<close> and \<open>undefined\<close> the read
  throws a \<open>TypeError\<close>, whose message is left open.
\<close>

fun property :: "js_value \<Rightarrow> js_string \<Rightarrow> js_value" where
  "property (JObject props) key = (case map_of props key of None \<Rightarrow> JUndefined | Some v \<Rightarrow> v)"
| "property v key = JUndefined"

definition type_error_message :: "js_value \<Rightarrow> js_string \<Rightarrow> js_string" where
  "type_error_message v key =
     js ''Cannot read properties of '' @ (if v = JNull then js ''null'' else js ''undefined'')
     @ js '' (reading '' @ [39] @ key @ [39] @ js '')''"

definition get_property :: "js_value \<Rightarrow> js_string \<Rightarrow> js_thrown + js_value" where
  "get_property v key =
     (if v = JNull \<or> v = JUndefined then Inl (Error (type_error_message v key))
      else Inr (property v key))"

section \<open>JSON.stringify\<close>

text \<open>
  \<open>JSON.stringify\<close> with one argument, on the values above. A string is quoted; the
  quotation mark, the backslash and the control characters below U+0020 are escaped, and
  so is a surrogate that is not part of a pair. A Number that is not finite becomes
  \<open>null\<close>. In an array \<open>undefined\<close> becomes \<open>null\<close>; in an object a property whose
  value is \<open>undefined\<close> is left out. For \<open>undefined\<close> itself the result is \<open>undefined\<close>:
  \<open>None\<close>.
\<close>

definition hex_digit :: "nat \<Rightarrow> nat" where
  "hex_digit d = (if d < 10 then 48 + d else 87 + d)"

definition unicode_escape :: "nat \<Rightarrow> js_string" where
  "unicode_escape c =
     [92, 117, hex_digit (c div 4096 mod 16), hex_digit (c div 256 mod 16),
      hex_digit (c div 16 mod 16), hex_digit (c mod 16)]"

definition escape_unit :: "nat \<Rightarrow> js_string" where
  "escape_unit c =
     (if c = 34 then [92, 34]
      else if c = 92 then [92, 92]
      else if c = 8 then [92, 98]
      else if c = 12 then [92, 102]
      else if c = 10 then [92, 110]
      else if c = 13 then [92, 114]
      else if c = 9 then [92, 116]
      else if c < 32 then unicode_escape c
      else [c])"

definition high_surrogate :: "nat \<Rightarrow> bool" where
  "high_surrogate c \<longleftrightarrow> 0xD800 \<le> c \<and> c \<le> 0xDBFF"

definition low_surrogate :: "nat \<Rightarrow> bool" where
  "low_surrogate c \<longleftrightarrow> 0xDC00 \<le> c \<and> c \<le> 0xDFFF"

fun escape_units :: "js_string \<Rightarrow> js_string" where
  "escape_units [] = []"
| "escape_units [c] =
     (if high_surrogate c \<or> low_surrogate c then unicode_escape c else escape_unit c)"
| "escape_units (c # d # cs) =
     (if high_surrogate c \<and> low_surrogate d then c # d # escape_units cs
      else if high_surrogate c \<or> low_surrogate c then unicode_escape c @ escape_units (d # cs)
      else escape_unit c @ escape_units (d # cs))"

definition quote :: "js_string \<Rightarrow> js_string" where
  "quote s = [34] @ escape_units s @ [34]"

fun JSON_stringify :: "js_value \<Rightarrow> js_string option"
  and stringify_elements :: "js_value list \<Rightarrow> js_string list"
  and stringify_members :: "(js_string \<times> js_value) list \<Rightarrow> js_string list" where
  "JSON_stringify JUndefined = None"
| "JSON_stringify JNull = Some (js ''null'')"
| "JSON_stringify (JBool b) = Some (if b then js ''true'' else js ''false'')"
| "JSON_stringify (JNumber n) =
     Some (case n of Fin x \<Rightarrow> number_to_string n | _ \<Rightarrow> js ''null'')"
| "JSON_stringify (JString s) = Some (quote s)"
| "JSON_stringify (JArray xs) = Some (js ''['' @ join (js '','') (stringify_elements xs) @ js '']'')"
| "JSON_stringify (JObject props) =
     Some (js ''{'' @ join (js '','') (stringify_members props) @ js ''}'')"
| "stringify_elements [] = []"
| "stringify_elements (x # xs) =
     (case JSON_stringify x of None \<Rightarrow> js ''null'' | Some t \<Rightarrow> t) # stringify_elements xs"
| "stringify_members [] = []"
| "stringify_members ((key, v) # props) =
     (case JSON_stringify v of
        None \<Rightarrow> stringify_members props
      | Some t \<Rightarrow> (quote key @ js '':'' @ t) # stringify_members props)"

text \<open>
  An element of an array of strings as \<open>join\<close> renders it: \<open>undefined\<close> gives the empty
  string.
\<close>

definition pushed :: "js_string option \<Rightarrow> js_string" where
  "pushed t = (case t of None \<Rightarrow> [] | Some text \<Rightarrow> text)"

section \<open>Startup: the API credential\<close>

text \<open>
  \<open>process.env\<close> maps names to strings. The module reads the credential once, into a
  constant, and throws when it is falsy: absent or empty.
\<close>

type_synonym process_env = "js_string \<rightharpoonup> js_string"

definition OPENWEATHER_API_KEY :: "process_env \<Rightarrow> js_thrown + js_string" where
  "OPENWEATHER_API_KEY env =
     (case env (js ''OPENWEATHER_API_KEY'') of
        None \<Rightarrow> Inl (Error (js ''OPENWEATHER_API_KEY environment variable is required''))
      | Some key \<Rightarrow>
          if \<not> truthy_string key
          then Inl (Error (js ''OPENWEATHER_API_KEY environment variable is required''))
          else Inr key)"

section \<open>The coordinate schema\<close>

text \<open>
  \<open>weatherToolSchema\<close> is
  \<open>z.object({latitude: z.number().min(-90).max(90), longitude: z.number().min(-180).max(180)})\<close>.
  Zod's \<open>parse\<close> rejects a value that is not a plain object, checks every field of the
  shape (a Number that is not NaN, not below the minimum, not above the maximum),
  collects the issues of all fields, drops unknown keys and returns the fields unchanged.
\<close>

record WeatherToolInput =
  latitude :: js_number
  longitude :: js_number

fun parsed_type :: "js_value \<Rightarrow> js_string" where
  "parsed_type JUndefined = js ''undefined''"
| "parsed_type JNull = js ''null''"
| "parsed_type (JBool b) = js ''boolean''"
| "parsed_type (JNumber n) = (if n = NaN then js ''nan'' else js ''number'')"
| "parsed_type (JString s) = js ''string''"
| "parsed_type (JArray xs) = js ''array''"
| "parsed_type (JObject props) = js ''object''"

definition number_min_max ::
  "js_number \<Rightarrow> js_number \<Rightarrow> js_string list \<Rightarrow> js_value \<Rightarrow> zod_issue list + js_number" where
  "number_min_max lo hi path v =
     (case v of
        JNumber n \<Rightarrow>
          if n = NaN then Inl [invalid_type path (js ''number'') (parsed_type v)]
          else let issues = (if js_less n lo then [too_small path lo] else [])
                          @ (if js_greater n hi then [too_big path hi] else [])
               in if issues = [] then Inr n else Inl issues
      | _ \<Rightarrow> Inl [invalid_type path (js ''number'') (parsed_type v)])"

definition weatherToolSchema_parse :: "js_value \<Rightarrow> zod_issue list + WeatherToolInput" where
  "weatherToolSchema_parse args =
     (case args of
        JObject props \<Rightarrow>
          (case (number_min_max (Fin (- 90)) (Fin 90) [js ''latitude''] (property args (js ''latitude'')),
                 number_min_max (Fin (- 180)) (Fin 180) [js ''longitude''] (property args (js ''longitude''))) of
             (Inr lat, Inr lon) \<Rightarrow> Inr \<lparr>latitude = lat, longitude = lon\<rparr>
           | (Inl is1, Inr lon) \<Rightarrow> Inl is1
           | (Inr lat, Inl is2) \<Rightarrow> Inl is2
           | (Inl is1, Inl is2) \<Rightarrow> Inl (is1 @ is2))
      | _ \<Rightarrow> Inl [invalid_type [] (js ''object'') (parsed_type args)])"

text \<open>
  The contract in the specification's words: the input has numeric fields \<open>latitude\<close>
  and \<open>longitude\<close>, latitude in \<open>[-90, 90]\<close> and longitude in \<open>[-180, 180]\<close>.
\<close>

definition valid_coordinates :: "js_value \<Rightarrow> bool" where
  "valid_coordinates args \<longleftrightarrow>
     (\<exists>props lat lon.
        args = JObject props
        \<and> map_of props (js ''latitude'') = Some (JNumber (Fin lat))
        \<and> map_of props (js ''longitude'') = Some (JNumber (Fin lon))
        \<and> - 90 \<le> lat \<and> lat \<le> 90 \<and> - 180 \<le> lon \<and> lon \<le> 180)"

text \<open>
  The constraint that the value of one field fails, by kind of failure, in the
  specification's words: a number below the lower bound fails the minimum, a number above
  the upper bound fails the maximum, and a value that is not a number (a missing field
  reads as \<open>undefined\<close>) fails the type constraint. Each failed constraint names the
  field and the bound or the type received. A number within the bounds fails none.
\<close>

fun failed_constraints :: "rat \<Rightarrow> rat \<Rightarrow> js_string \<Rightarrow> js_value \<Rightarrow> zod_issue list" where
  "failed_constraints lo hi field (JNumber (Fin x)) =
     (if x < lo then [too_small [field] (Fin lo)]
      else if hi < x then [too_big [field] (Fin hi)]
      else [])"
| "failed_constraints lo hi field (JNumber NegInf) = [too_small [field] (Fin lo)]"
| "failed_constraints lo hi field (JNumber PosInf) = [too_big [field] (Fin hi)]"
| "failed_constraints lo hi field (JNumber NaN) = [invalid_type [field] (js ''number'') (js ''nan'')]"
| "failed_constraints lo hi field JUndefined =
     [invalid_type [field] (js ''number'') (js ''undefined'')]"
| "failed_constraints lo hi field JNull = [invalid_type [field] (js ''number'') (js ''null'')]"
| "failed_constraints lo hi field (JBool b) =
     [invalid_type [field] (js ''number'') (js ''boolean'')]"
| "failed_constraints lo hi field (JString s) =
     [invalid_type [field] (js ''number'') (js ''string'')]"
| "failed_constraints lo hi field (JArray xs) =
     [invalid_type [field] (js ''number'') (js ''array'')]"
| "failed_constraints lo hi field (JObject props) =
     [invalid_type [field] (js ''number'') (js ''object'')]"

section \<open>The tool handlers\<close>

text \<open>
  The upstream payload as the handler's cast \<open>as OneCallData\<close> declares it, and the
  \<open>Response\<close> of \<open>fetch\<close>: \<open>json\<close> is the outcome of \<open>response.json()\<close>, a payload or
  a rejection.
\<close>

record WeatherItem =
  description :: js_string

record Current =
  temp :: js_number
  humidity :: js_number
  wind_speed :: js_number
  weather :: "WeatherItem list"

record OneCallData =
  current :: Current

record Response =
  ok :: bool
  status :: js_number
  statusText :: js_string
  json :: "js_thrown + OneCallData"

type_synonym fetch = "js_string \<Rightarrow> js_thrown + Response"

text \<open>The local object \<open>weather\<close> of the handler.\<close>

record WeatherReport =
  description :: js_string
  temperature :: js_number
  humidity :: js_number
  windSpeed :: js_number
  location :: js_string

text \<open>The handler registered for \<open>ListToolsRequestSchema\<close>.\<close>

definition list_tools_handler :: js_value where
  "list_tools_handler =
     JObject [(js ''tools'', JArray [JObject
       [(js ''name'', JString (js ''get_weather'')),
        (js ''description'', JString (js ''Get current weather for a location using coordinates'')),
        (js ''inputSchema'', JObject
          [(js ''type'', JString (js ''object'')),
           (js ''properties'', JObject
             [(js ''latitude'', JObject
                [(js ''type'', JString (js ''number'')),
                 (js ''minimum'', JNumber (Fin (- 90))),
                 (js ''maximum'', JNumber (Fin 90)),
                 (js ''description'', JString (js ''Latitude coordinate''))]),
              (js ''longitude'', JObject
                [(js ''type'', JString (js ''number'')),
                 (js ''minimum'', JNumber (Fin (- 180))),
                 (js ''maximum'', JNumber (Fin 180)),
                 (js ''description'', JString (js ''Longitude coordinate''))])]),
           (js ''required'', JArray [JString (js ''latitude''), JString (js ''longitude'')])])]])]"

definition request_url :: "js_string \<Rightarrow> WeatherToolInput \<Rightarrow> js_string" where
  "request_url api_key input =
     js ''https://api.openweathermap.org/data/3.0/onecall?lat='' @ number_to_string (latitude input)
     @ js ''&lon='' @ number_to_string (longitude input)
     @ js ''&exclude=minutely,hourly,daily,alerts&appid='' @ api_key
     @ js ''&units=metric''"

text \<open>
  \<open>data.current.weather[0]?.description || 'Unknown'\<close>: the first item's description
  unless the list is empty or that description is the empty string.
\<close>

definition description_or_unknown :: "WeatherItem list \<Rightarrow> js_string" where
  "description_or_unknown items =
     (case items of
        [] \<Rightarrow> js ''Unknown''
      | item # _ \<Rightarrow>
          if truthy_string (WeatherItem.description item) then WeatherItem.description item
          else js ''Unknown'')"

definition weather_of :: "WeatherToolInput \<Rightarrow> OneCallData \<Rightarrow> WeatherReport" where
  "weather_of input data =
     \<lparr>description = description_or_unknown (weather (current data)),
      temperature = js_div (Math_round (js_mul (temp (current data)) (Fin 10))) (Fin 10),
      humidity = Current.humidity (current data),
      windSpeed = js_div (Math_round (js_mul (wind_speed (current data)) (Fin 10))) (Fin 10),
      location = number_to_string (latitude input) @ js '', '' @ number_to_string (longitude input)\<rparr>"

definition report_text :: "WeatherReport \<Rightarrow> js_string" where
  "report_text w =
     js ''Weather at coordinates '' @ location w @ js '':'' @ [newline]
     @ [bullet] @ js '' Conditions: '' @ description w @ [newline]
     @ [bullet] @ js '' Temperature: '' @ number_to_string (temperature w) @ [degree_sign] @ js ''C'' @ [newline]
     @ [bullet] @ js '' Humidity: '' @ number_to_string (humidity w) @ js ''%'' @ [newline]
     @ [bullet] @ js '' Wind Speed: '' @ number_to_string (windSpeed w) @ js '' m/s''"

definition text_content :: "js_string \<Rightarrow> js_value" where
  "text_content t =
     JObject [(js ''content'', JArray [JObject
       [(js ''type'', JString (js ''text'')), (js ''text'', JString t)]])]"

text \<open>
  The \<open>try\<close> block of the \<open>CallToolRequestSchema\<close> handler. The second component
  is the list of URLs handed to \<open>fetch\<close>, in order: the outbound calls made.
\<close>

definition try_block ::
  "fetch \<Rightarrow> js_string \<Rightarrow> js_value \<Rightarrow> (js_thrown + js_value) \<times> js_string list" where
  "try_block fetch api_key args =
     (case weatherToolSchema_parse args of
        Inl issues \<Rightarrow> (Inl (ZodError issues), [])
      | Inr input \<Rightarrow>
          let url = request_url api_key input
          in (case fetch url of
                Inl rejected \<Rightarrow> (Inl rejected, [url])
              | Inr response \<Rightarrow>
                  if \<not> ok response
                  then (Inl (Error (js ''Weather API returned '' @ number_to_string (status response)
                                    @ js '': '' @ statusText response)), [url])
                  else (case json response of
                          Inl rejected \<Rightarrow> (Inl rejected, [url])
                        | Inr data \<Rightarrow>
                            (Inr (text_content (report_text (weather_of input data))), [url]))))"

text \<open>
  The \<open>catch\<close> block. \<open>zod_message\<close> stands for the \<open>message\<close> getter of \<open>ZodError\<close>,
  which belongs to the validation library.
\<close>

fun catch_block :: "(zod_issue list \<Rightarrow> js_string) \<Rightarrow> js_thrown \<Rightarrow> mcp_error" where
  "catch_block zod_message (ZodError issues) =
     McpError InvalidParams (js ''Invalid parameters: '' @ zod_message issues)"
| "catch_block zod_message (Error message) =
     McpError InternalError (js ''Error fetching weather data: '' @ message)"
| "catch_block zod_message NonError =
     McpError InternalError (js ''Error fetching weather data: '' @ js ''Unknown error occurred'')"

record CallToolParams =
  name :: js_string
  arguments :: js_value

definition call_tool_handler ::
  "(zod_issue list \<Rightarrow> js_string) \<Rightarrow> fetch \<Rightarrow> js_string \<Rightarrow> CallToolParams
     \<Rightarrow> (mcp_error + js_value) \<times> js_string list" where
  "call_tool_handler zod_message fetch api_key params =
     (if name params \<noteq> js ''get_weather''
      then (Inl (McpError MethodNotFound (js ''Unknown tool: '' @ name params)), [])
      else (case try_block fetch api_key (arguments params) of
              (Inl thrown, calls) \<Rightarrow> (Inl (catch_block zod_message thrown), calls)
            | (Inr result, calls) \<Rightarrow> (Inr result, calls)))"

section \<open>The batch endpoint\<close>

text \<open>
  \<open>JSON.parse\<close> and the \<open>request\<close> method of the SDK's \<open>Server\<close> are parameters:
  \<open>parse\<close> gives the parsed value or the \<open>SyntaxError\<close> it throws, and
  \<open>server_request request schema\<close> gives the value the returned promise resolves to or
  the value it rejects with.
\<close>

datatype RequestSchema = ListToolsRequestSchema | CallToolRequestSchema

type_synonym json_parse = "js_string \<Rightarrow> js_thrown + js_value"

type_synonym 'e server_request = "js_value \<Rightarrow> RequestSchema \<Rightarrow> 'e + js_value"

text \<open>What the inner \<open>try\<close> block of the loop can throw.\<close>

datatype 'e line_thrown = Thrown js_thrown | Rejected 'e

definition tools_list_request :: js_value where
  "tools_list_request =
     JObject [(js ''method'', JString (js ''tools/list'')), (js ''params'', JObject [])]"

definition method_not_found :: "js_value \<Rightarrow> js_value" where
  "method_not_found request =
     JObject [(js ''jsonrpc'', JString (js ''2.0'')),
              (js ''id'', property request (js ''id'')),
              (js ''error'', JObject [(js ''code'', JNumber (Fin (- 32601))),
                                      (js ''message'', JString (js ''Method not found''))])]"

definition responseData :: "js_value \<Rightarrow> js_value \<Rightarrow> js_value" where
  "responseData request response =
     JObject [(js ''jsonrpc'', JString (js ''2.0'')),
              (js ''id'', property request (js ''id'')),
              (js ''result'', response)]"

definition errorResponse :: js_value where
  "errorResponse =
     JObject [(js ''jsonrpc'', JString (js ''2.0'')),
              (js ''id'', JNull),
              (js ''error'', JObject [(js ''code'', JNumber (Fin (- 32700))),
                                      (js ''message'', JString (js ''Parse error''))])]"

text \<open>
  The \<open>try\<close> block after \<open>JSON.parse\<close>: the dispatch on \<open>request.method\<close> and the
  wrapping of whatever \<open>response\<close> was bound to.
\<close>

definition dispatch :: "'e server_request \<Rightarrow> js_value \<Rightarrow> 'e line_thrown + js_value" where
  "dispatch server_request request =
     (case get_property request (js ''method'') of
        Inl thrown \<Rightarrow> Inl (Thrown thrown)
      | Inr method \<Rightarrow>
          (case (if method = JString (js ''tools/list'')
                 then server_request tools_list_request ListToolsRequestSchema
                 else if method = JString (js ''tools/call'')
                 then server_request request CallToolRequestSchema
                 else Inr (method_not_found request)) of
             Inl rejected \<Rightarrow> Inl (Rejected rejected)
           | Inr response \<Rightarrow> Inr (responseData request response)))"

definition line_try :: "json_parse \<Rightarrow> 'e server_request \<Rightarrow> js_string \<Rightarrow> 'e line_thrown + js_value" where
  "line_try parse server_request line =
     (case parse line of
        Inl thrown \<Rightarrow> Inl (Thrown thrown)
      | Inr request \<Rightarrow> dispatch server_request request)"

text \<open>One iteration of the loop: the object that is stringified and pushed.\<close>

definition line_response :: "json_parse \<Rightarrow> 'e server_request \<Rightarrow> js_string \<Rightarrow> js_value" where
  "line_response parse server_request line =
     (case line_try parse server_request line of
        Inl thrown \<Rightarrow> errorResponse
      | Inr data \<Rightarrow> data)"

text \<open>The \<open>for\<close> loop over \<open>lines\<close>, pushing onto \<open>responses\<close>.\<close>

fun process_lines ::
  "json_parse \<Rightarrow> 'e server_request \<Rightarrow> js_string list \<Rightarrow> js_string list \<Rightarrow> js_string list" where
  "process_lines parse server_request [] responses = responses"
| "process_lines parse server_request (line # lines) responses =
     process_lines parse server_request lines
       (responses @ [pushed (JSON_stringify (line_response parse server_request line))])"

definition request_lines :: "js_string \<Rightarrow> js_string list" where
  "request_lines body = filter (\<lambda>line. truthy_string (trim line)) (split newline body)"

datatype http_response =
    JsonResponse js_value nat
  | NdjsonResponse js_string "(js_string \<times> js_string) list"

definition ndjson_headers :: "(js_string \<times> js_string) list" where
  "ndjson_headers =
     [(js ''Content-Type'', js ''application/x-ndjson''),
      (js ''Access-Control-Allow-Origin'', js ''*''),
      (js ''Access-Control-Allow-Methods'', js ''POST, OPTIONS''),
      (js ''Access-Control-Allow-Headers'', js ''Content-Type'')]"

text \<open>
  The route \<open>POST /mcp\<close>. \<open>body_text\<close> is the outcome of \<open>await c.req.text()\<close>; a
  rejection there is what the outer \<open>catch\<close> answers.
\<close>

definition mcp_post ::
  "json_parse \<Rightarrow> 'e server_request \<Rightarrow> js_thrown + js_string \<Rightarrow> http_response" where
  "mcp_post parse server_request body_text =
     (case body_text of
        Inl thrown \<Rightarrow> JsonResponse (JObject [(js ''error'', JString (js ''Internal server error''))]) 500
      | Inr body \<Rightarrow>
          if \<not> truthy_string body
          then JsonResponse (JObject [(js ''error'', JString (js ''No request body''))]) 400
          else NdjsonResponse
                 (join [newline] (process_lines parse server_request (request_lines body) []))
                 ndjson_headers)"

text \<open>The route \<open>GET /health\<close>; \<open>timestamp\<close> is \<open>new Date().toISOString()\<close>.\<close>

definition health :: "js_string \<Rightarrow> js_string \<Rightarrow> http_response" where
  "health api_key timestamp =
     JsonResponse
       (JObject [(js ''status'', JString (js ''healthy'')),
                 (js ''timestamp'', JString timestamp),
                 (js ''service'', JString (js ''mcp-weather-server'')),
                 (js ''version'', JString (js ''1.0.0'')),
                 (js ''hasApiKey'', JBool (truthy_string api_key))])
       200"

text \<open>
  The module as a whole: it throws while loading when the credential is missing, and
  otherwise exports the application built around the constant. Of the routes, the
  batch endpoint and the liveness probe are modelled. \<open>server api_key\<close> is the SDK
  server whose handlers close over the constant.
\<close>

datatype http_request = PostMcp "js_thrown + js_string" | GetHealth js_string

definition app ::
  "json_parse \<Rightarrow> 'e server_request \<Rightarrow> js_string \<Rightarrow> http_request \<Rightarrow> http_response" where
  "app parse server_request api_key req =
     (case req of
        PostMcp body_text \<Rightarrow> mcp_post parse server_request body_text
      | GetHealth timestamp \<Rightarrow> health api_key timestamp)"

definition handler ::
  "json_parse \<Rightarrow> (js_string \<Rightarrow> 'e server_request) \<Rightarrow> process_env
     \<Rightarrow> js_thrown + (http_request \<Rightarrow> http_response)" where
  "handler parse server env =
     (case OPENWEATHER_API_KEY env of
        Inl thrown \<Rightarrow> Inl thrown
      | Inr api_key \<Rightarrow> Inr (app parse (server api_key) api_key))"

text \<open>A line is blank when it is empty or consists only of whitespace.\<close>

definition blank :: "js_string \<Rightarrow> bool" where
  "blank line \<longleftrightarrow> list_all is_whitespace line"

section \<open>Sample inputs\<close>

text \<open>
  The upstream payload \<open>{current: {temp: 15.04, humidity: 80, wind_speed: 3.6,
  weather: [{description: "clear sky"}]}}\<close>, the arguments \<open>{latitude: 37.7749,
  longitude: -122.4194}\<close>, and a \<open>fetch\<close> that answers every URL with status 200 and
  that payload.
\<close>

definition sample_payload :: OneCallData where
  "sample_payload =
     \<lparr>current = \<lparr>temp = decimal 1504 (- 2), humidity = Fin 80, wind_speed = decimal 36 (- 1),
                  weather = [\<lparr>WeatherItem.description = js ''clear sky''\<rparr>]\<rparr>\<rparr>"

definition sample_arguments :: js_value where
  "sample_arguments =
     JObject [(js ''latitude'', JNumber (decimal 377749 (- 4))),
              (js ''longitude'', JNumber (decimal (- 1224194) (- 4)))]"

definition sample_fetch :: fetch where
  "sample_fetch url = Inr \<lparr>ok = True, status = Fin 200, statusText = js ''OK'', json = Inr sample_payload\<rparr>"

text \<open>
  A \<open>fetch\<close> that answers with HTTP 500, a payload whose \<open>weather\<close> list is empty (and
  whose humidity is negative), and the \<open>arguments\<close> object for two given values.
\<close>

definition failing_fetch :: fetch where
  "failing_fetch url =
     Inr \<lparr>ok = False, status = Fin 500, statusText = js ''Internal Server Error'', json = Inl NonError\<rparr>"

definition empty_weather_payload :: OneCallData where
  "empty_weather_payload =
     \<lparr>current = \<lparr>temp = Fin 15, humidity = Fin (- 5), wind_speed = Fin 0, weather = []\<rparr>\<rparr>"

definition empty_weather_fetch :: fetch where
  "empty_weather_fetch url =
     Inr \<lparr>ok = True, status = Fin 200, statusText = js ''OK'', json = Inr empty_weather_payload\<rparr>"

definition arguments_of :: "js_value \<Rightarrow> js_value \<Rightarrow> js_value" where
  "arguments_of lat lon = JObject [(js ''latitude'', lat), (js ''longitude'', lon)]"

text \<open>
  Three request lines with the values \<open>JSON.parse\<close> gives for them, and a \<open>parse\<close> that
  knows these lines and throws on every other text.
\<close>

definition line_call :: js_string where
  \<open>line_call = js ''{"jsonrpc":"2.0","id":1,"method":"tools/call","params":{"name":"get_weather","arguments":{"latitude":37.7749,"longitude":-122.4194}}}''\<close>

definition request_call :: js_value where
  "request_call =
     JObject [(js ''jsonrpc'', JString (js ''2.0'')), (js ''id'', JNumber (Fin 1)),
              (js ''method'', JString (js ''tools/call'')),
              (js ''params'', JObject [(js ''name'', JString (js ''get_weather'')),
                                       (js ''arguments'', sample_arguments)])]"

definition line_unknown :: js_string where
  \<open>line_unknown = js ''{"jsonrpc":"2.0","id":2,"method":"resources/list"}''\<close>

definition request_unknown :: js_value where
  "request_unknown =
     JObject [(js ''jsonrpc'', JString (js ''2.0'')), (js ''id'', JNumber (Fin 2)),
              (js ''method'', JString (js ''resources/list''))]"

definition line_out_of_range :: js_string where
  \<open>line_out_of_range = js ''{"jsonrpc":"2.0","id":3,"method":"tools/call","params":{"name":"get_weather","arguments":{"latitude":91,"longitude":0}}}''\<close>

definition request_out_of_range :: js_value where
  "request_out_of_range =
     JObject [(js ''jsonrpc'', JString (js ''2.0'')), (js ''id'', JNumber (Fin 3)),
              (js ''method'', JString (js ''tools/call'')),
              (js ''params'', JObject [(js ''name'', JString (js ''get_weather'')),
                                       (js ''arguments'', arguments_of (JNumber (Fin 91)) (JNumber (Fin 0)))])]"

definition sample_parse :: json_parse where
  "sample_parse line =
     (if line = line_call then Inr request_call
      else if line = line_unknown then Inr request_unknown
      else if line = line_out_of_range then Inr request_out_of_range
      else Inl (Error (js ''Unexpected token'')))"

text \<open>
  A stand-in for the message of a \<open>ZodError\<close>: the default message of each issue. And a
  stand-in for the server: its \<open>request\<close> runs the handler registered for the schema, as
  the specification reads \<open>server.request\<close>. Both are used in examples only; the theorems
  hold for every message function and every \<open>server_request\<close>.
\<close>

fun issue_message :: "zod_issue \<Rightarrow> js_string" where
  "issue_message (invalid_type path expected received) =
     js ''Expected '' @ expected @ js '', received '' @ received"
| "issue_message (too_small path lo) =
     js ''Number must be greater than or equal to '' @ number_to_string lo"
| "issue_message (too_big path hi) =
     js ''Number must be less than or equal to '' @ number_to_string hi"

definition plain_zod_message :: "zod_issue list \<Rightarrow> js_string" where
  "plain_zod_message issues = join (js ''; '') (map issue_message issues)"

fun string_of :: "js_value \<Rightarrow> js_string" where
  "string_of (JString s) = s"
| "string_of v = []"

definition local_server :: "fetch \<Rightarrow> js_string \<Rightarrow> mcp_error server_request" where
  "local_server fetch api_key request schema =
     (case schema of
        ListToolsRequestSchema \<Rightarrow> Inr list_tools_handler
      | CallToolRequestSchema \<Rightarrow>
          fst (call_tool_handler plain_zod_message fetch api_key
                 \<lparr>name = string_of (property (property request (js ''params'')) (js ''name'')),
                  arguments = property (property request (js ''params'')) (js ''arguments'')\<rparr>))"

text \<open>The text of \<open>errorResponse\<close>, and of the report for the sample payload as a result.\<close>

definition parse_error_line :: js_string where
  \<open>parse_error_line = js ''{"jsonrpc":"2.0","id":null,"error":{"code":-32700,"message":"Parse error"}}''\<close>


definition unknown_method_line :: js_string where
  \<open>unknown_method_line = js ''{"jsonrpc":"2.0","id":2,"result":{"jsonrpc":"2.0","id":2,"error":{"code":-32601,"message":"Method not found"}}}''\<close>

text \<open>
  A request body of six lines: a line of two spaces, the line with the unknown method, an
  empty line, a line with a tab, a line that is not JSON, and the empty piece after the
  last line feed.
\<close>

definition sample_body :: js_string where
  "sample_body =
     js ''  '' @ [newline] @ line_unknown @ [newline, newline, 9, newline] @ js ''not json'' @ [newline]"

section \<open>Evaluating numbers\<close>

text \<open>
  Floors and ceilings of rational numerals, and the equations that the simplifier
  needs to run the number functions on concrete values.
\<close>

lemma floor_rat_numeral: "\<lfloor>numeral a / numeral b :: rat\<rfloor> = numeral a div numeral b"
  using floor_divide_of_int_eq [of "numeral a" "numeral b", where ?'a = rat] by simp

lemma floor_rat_neg_numeral: "\<lfloor>- (numeral a / numeral b) :: rat\<rfloor> = - numeral a div numeral b"
  using floor_divide_of_int_eq [of "- numeral a" "numeral b", where ?'a = rat] by simp

lemma ceiling_rat_numeral: "\<lceil>numeral a / numeral b :: rat\<rceil> = - (- numeral a div numeral b)"
  by (simp add: ceiling_def floor_rat_neg_numeral)

lemma floor_rat_one_numeral: "\<lfloor>1 / numeral b :: rat\<rfloor> = 1 div numeral b"
  using floor_divide_of_int_eq [of 1 "numeral b", where ?'a = rat] by simp

lemma ceiling_rat_one_numeral: "\<lceil>1 / numeral b :: rat\<rceil> = - (- 1 div numeral b)"
  using floor_divide_of_int_eq [of "- 1" "numeral b", where ?'a = rat] by (simp add: ceiling_def)

lemmas number_eval =
  decimal_def to_double_def finite_or_infinity_def round_to_def ulp_of_def floor_log_def
  num_digits.simps bpow_def round_half_even_def round_tie_even_def number_to_string.simps
  positive_to_string_def shortest_digits.simps has_digits_def best_digits_def reads_back_def
  normalise_digits_def format_decimal_def format_digits_def exponent_part_def digits_of.simps
  js_def signed_infinity_def floor_rat_numeral floor_rat_neg_numeral ceiling_rat_numeral
  floor_rat_one_numeral ceiling_rat_one_numeral numeral_2_eq_2 numeral_3_eq_3
  js_mul.simps js_div.simps Math_round.simps

lemma decimal_37_7749: "decimal 377749 (- 4) = Fin (332271534304605 / 8796093022208)"
  by (simp add: number_eval)

lemma decimal_minus_122_4194: "decimal (- 1224194) (- 4) = Fin (- (538406215061445 / 4398046511104))"
  by (simp add: number_eval)

lemma decimal_15_04: "decimal 1504 (- 2) = Fin (2116691824864133 / 140737488355328)"
  by (simp add: number_eval)

lemma decimal_3_6: "decimal 36 (- 1) = Fin (8106479329266893 / 2251799813685248)"
  by (simp add: number_eval)

lemma string_37_7749:
  "number_to_string (Fin (332271534304605 / 8796093022208)) = js ''37.7749''"
  by (simp add: number_eval)

lemma string_minus_122_4194:
  "number_to_string (Fin (- (538406215061445 / 4398046511104))) = js ''-122.4194''"
  by (simp add: number_eval)

lemma round_15_04:
  "js_div (Math_round (js_mul (Fin (2116691824864133 / 140737488355328)) (Fin 10))) (Fin 10) = Fin 15"
  by (simp add: number_eval)

lemma round_3_6:
  "js_div (Math_round (js_mul (Fin (8106479329266893 / 2251799813685248)) (Fin 10))) (Fin 10) =
     Fin (8106479329266893 / 2251799813685248)"
  by (simp add: number_eval)

lemma string_15: "number_to_string (Fin 15) = js ''15''"
  by (simp add: number_eval)

lemma string_80: "number_to_string (Fin 80) = js ''80''"
  by (simp add: number_eval)

lemma string_3_6: "number_to_string (Fin (8106479329266893 / 2251799813685248)) = js ''3.6''"
  by (simp add: number_eval)

lemma string_500: "number_to_string (Fin 500) = js ''500''"
  by (simp add: number_eval)

lemma string_91: "number_to_string (Fin 91) = js ''91''"
  by (simp add: number_eval)

lemma string_0: "number_to_string (Fin 0) = js ''0''"
  by (simp add: number_eval)

lemma string_minus_5: "number_to_string (Fin (- 5)) = js ''-5''"
  by (simp add: number_eval)

lemma round_15: "js_div (Math_round (js_mul (Fin 15) (Fin 10))) (Fin 10) = Fin 15"
  by (simp add: number_eval)

lemma round_0: "js_div (Math_round (js_mul (Fin 0) (Fin 10))) (Fin 10) = Fin 0"
  by (simp add: number_eval)

lemma string_90: "number_to_string (Fin 90) = js ''90''"
  by (simp add: number_eval)

lemma string_180: "number_to_string (Fin 180) = js ''180''"
  by (simp add: number_eval)

section \<open>Properties of the coordinate schema\<close>

lemma number_min_max_accepts:
  "number_min_max (Fin lo) (Fin hi) path v = Inr n \<longleftrightarrow>
     (\<exists>x. v = JNumber (Fin x) \<and> n = Fin x \<and> lo \<le> x \<and> x \<le> hi)"
  by (cases v; cases n)
     (auto simp: number_min_max_def js_greater_def Let_def split: js_number.splits)

lemma number_min_max_issues:
  "number_min_max lo hi path v = Inl issues \<Longrightarrow> issues \<noteq> []"
  by (auto simp: number_min_max_def Let_def split: js_value.splits if_splits)

lemma property_number:
  "property (JObject props) key = JNumber n \<longleftrightarrow> map_of props key = Some (JNumber n)"
  by (cases "map_of props key") auto

lemma parse_accepts:
  "weatherToolSchema_parse args = Inr input \<longleftrightarrow>
     (\<exists>props lat lon.
        args = JObject props
        \<and> map_of props (js ''latitude'') = Some (JNumber (Fin lat))
        \<and> map_of props (js ''longitude'') = Some (JNumber (Fin lon))
        \<and> - 90 \<le> lat \<and> lat \<le> 90 \<and> - 180 \<le> lon \<and> lon \<le> 180
        \<and> input = \<lparr>latitude = Fin lat, longitude = Fin lon\<rparr>)"
proof (cases args)
  case (JObject props)
  let ?lat = "number_min_max (Fin (- 90)) (Fin 90) [js ''latitude''] (property args (js ''latitude''))"
  let ?lon = "number_min_max (Fin (- 180)) (Fin 180) [js ''longitude''] (property args (js ''longitude''))"
  have "weatherToolSchema_parse args = Inr input \<longleftrightarrow>
          (\<exists>a b. ?lat = Inr a \<and> ?lon = Inr b \<and> input = \<lparr>latitude = a, longitude = b\<rparr>)"
    by (cases ?lat; cases ?lon) (auto simp: weatherToolSchema_parse_def JObject)
  also have "\<dots> \<longleftrightarrow>
     (\<exists>lat lon.
        map_of props (js ''latitude'') = Some (JNumber (Fin lat))
        \<and> map_of props (js ''longitude'') = Some (JNumber (Fin lon))
        \<and> - 90 \<le> lat \<and> lat \<le> 90 \<and> - 180 \<le> lon \<and> lon \<le> 180
        \<and> input = \<lparr>latitude = Fin lat, longitude = Fin lon\<rparr>)"
    unfolding number_min_max_accepts JObject property_number by auto
  finally show ?thesis
    by (simp add: JObject)
qed (simp_all add: weatherToolSchema_parse_def)

lemma parse_rejects:
  "weatherToolSchema_parse args = Inl issues \<Longrightarrow> issues \<noteq> []"
  by (auto simp: weatherToolSchema_parse_def split: js_value.splits sum.splits
      dest: number_min_max_issues)

lemma parse_valid_coordinates:
  "valid_coordinates args \<longleftrightarrow> (\<exists>input. weatherToolSchema_parse args = Inr input)"
  unfolding parse_accepts valid_coordinates_def by auto

lemma parse_latitude_91:
  "weatherToolSchema_parse (arguments_of (JNumber (Fin 91)) (JNumber (Fin 0))) =
     Inl [too_big [js ''latitude''] (Fin 90)]"
  by (simp add: arguments_of_def weatherToolSchema_parse_def number_min_max_def js_greater_def js_def)

lemma parse_longitude_181:
  "weatherToolSchema_parse (arguments_of (JNumber (Fin 0)) (JNumber (Fin 181))) =
     Inl [too_big [js ''longitude''] (Fin 180)]"
  by (simp add: arguments_of_def weatherToolSchema_parse_def number_min_max_def js_greater_def js_def)

lemma parse_latitude_missing:
  "weatherToolSchema_parse (JObject [(js ''longitude'', JNumber (Fin 0))]) =
     Inl [invalid_type [js ''latitude''] (js ''number'') (js ''undefined'')]"
  by (simp add: weatherToolSchema_parse_def number_min_max_def js_greater_def js_def)

lemma parse_latitude_string:
  "weatherToolSchema_parse (arguments_of (JString (js ''37.7'')) (JNumber (Fin 0))) =
     Inl [invalid_type [js ''latitude''] (js ''number'') (js ''string'')]"
  by (simp add: arguments_of_def weatherToolSchema_parse_def number_min_max_def js_greater_def js_def)

lemma parse_both_out_of_range:
  "weatherToolSchema_parse (arguments_of (JNumber (Fin (- 91))) (JNumber PosInf)) =
     Inl [too_small [js ''latitude''] (Fin (- 90)), too_big [js ''longitude''] (Fin 180)]"
  by (simp add: arguments_of_def weatherToolSchema_parse_def number_min_max_def js_greater_def js_def)

lemma number_min_max_failed:
  assumes "lo \<le> hi"
  shows "number_min_max (Fin lo) (Fin hi) [field] v =
           (if failed_constraints lo hi field v = []
            then Inr (case v of JNumber n \<Rightarrow> n | _ \<Rightarrow> NaN)
            else Inl (failed_constraints lo hi field v))"
proof (cases v)
  case (JNumber n)
  with assms show ?thesis
    by (cases n) (auto simp: number_min_max_def js_greater_def)
qed (simp_all add: number_min_max_def)

lemma parse_failed_constraints:
  "weatherToolSchema_parse (JObject props) = Inl issues \<Longrightarrow>
   issues = failed_constraints (- 90) 90 (js ''latitude'') (property (JObject props) (js ''latitude''))
          @ failed_constraints (- 180) 180 (js ''longitude'') (property (JObject props) (js ''longitude''))"
  by (simp add: weatherToolSchema_parse_def number_min_max_failed split: if_splits)

lemma parse_not_object:
  "\<forall>props. args \<noteq> JObject props \<Longrightarrow>
   weatherToolSchema_parse args = Inl [invalid_type [] (js ''object'') (parsed_type args)]"
  by (cases args) (simp_all add: weatherToolSchema_parse_def)

lemma not_valid_iff: "\<not> valid_coordinates args \<longleftrightarrow> (\<exists>issues. weatherToolSchema_parse args = Inl issues)"
  unfolding parse_valid_coordinates by (cases "weatherToolSchema_parse args") auto

section \<open>The report for the sample payload\<close>

lemma sample_arguments_parse:
  "weatherToolSchema_parse sample_arguments =
     Inr \<lparr>latitude = Fin (332271534304605 / 8796093022208),
          longitude = Fin (- (538406215061445 / 4398046511104))\<rparr>"
  by (simp add: sample_arguments_def weatherToolSchema_parse_def number_min_max_def js_greater_def
      decimal_37_7749 decimal_minus_122_4194 js_def)

lemma sample_weather:
  "weather_of \<lparr>latitude = Fin (332271534304605 / 8796093022208),
               longitude = Fin (- (538406215061445 / 4398046511104))\<rparr> sample_payload =
     \<lparr>description = js ''clear sky'', temperature = Fin 15, humidity = Fin 80,
      windSpeed = Fin (8106479329266893 / 2251799813685248), location = js ''37.7749, -122.4194''\<rparr>"
  by (simp add: weather_of_def sample_payload_def description_or_unknown_def truthy_string_def
      decimal_15_04 decimal_3_6 round_15_04 round_3_6 string_37_7749 string_minus_122_4194)
     (simp add: js_def)

text \<open>
  C1. For the upstream payload with temperature 15.04, humidity 80, wind speed 3.6 and
  description "clear sky", and the coordinates (37.7749, -122.4194), the handler's
  \<open>weather\<close> object has description "clear sky", temperature 15.0, humidity 80, windSpeed
  3.6 and location "37.7749, -122.4194", and the handler returns the multi-line report
  rendered from these values after one outbound call. The temperature and the wind speed
  are the payload's values rounded to one decimal; the Number 15.0 is the Number 15, which
  a template literal prints as \<open>15\<close>.
\<close>

theorem sample_report:
  "weather_of \<lparr>latitude = decimal 377749 (- 4), longitude = decimal (- 1224194) (- 4)\<rparr> sample_payload =
     \<lparr>description = js ''clear sky'', temperature = Fin 15, humidity = Fin 80,
      windSpeed = decimal 36 (- 1), location = js ''37.7749, -122.4194''\<rparr>
   \<and> call_tool_handler zod_message sample_fetch api_key
     \<lparr>name = js ''get_weather'', arguments = sample_arguments\<rparr> =
   (Inr (text_content
      (js ''Weather at coordinates 37.7749, -122.4194:'' @ [newline]
       @ [bullet] @ js '' Conditions: clear sky'' @ [newline]
       @ [bullet] @ js '' Temperature: 15'' @ [degree_sign] @ js ''C'' @ [newline]
       @ [bullet] @ js '' Humidity: 80%'' @ [newline]
       @ [bullet] @ js '' Wind Speed: 3.6 m/s'')),
    [js ''https://api.openweathermap.org/data/3.0/onecall?lat=37.7749&lon=-122.4194''
     @ js ''&exclude=minutely,hourly,daily,alerts&appid='' @ api_key @ js ''&units=metric''])"
proof -
  have url:
    "request_url api_key \<lparr>latitude = Fin (332271534304605 / 8796093022208),
                           longitude = Fin (- (538406215061445 / 4398046511104))\<rparr> =
     js ''https://api.openweathermap.org/data/3.0/onecall?lat=37.7749&lon=-122.4194''
     @ js ''&exclude=minutely,hourly,daily,alerts&appid='' @ api_key @ js ''&units=metric''"
    by (simp add: request_url_def string_37_7749 string_minus_122_4194) (simp add: js_def)
  have rendered:
    "report_text \<lparr>description = js ''clear sky'', temperature = Fin 15, humidity = Fin 80,
        windSpeed = Fin (8106479329266893 / 2251799813685248), location = js ''37.7749, -122.4194''\<rparr> =
      js ''Weather at coordinates 37.7749, -122.4194:'' @ [newline]
       @ [bullet] @ js '' Conditions: clear sky'' @ [newline]
       @ [bullet] @ js '' Temperature: 15'' @ [degree_sign] @ js ''C'' @ [newline]
       @ [bullet] @ js '' Humidity: 80%'' @ [newline]
       @ [bullet] @ js '' Wind Speed: 3.6 m/s''"
    by (simp add: report_text_def string_15 string_80 string_3_6) (simp add: js_def)
  have handler: "call_tool_handler zod_message sample_fetch api_key
     \<lparr>name = js ''get_weather'', arguments = sample_arguments\<rparr> =
     (Inr (text_content (report_text (weather_of \<lparr>latitude = Fin (332271534304605 / 8796093022208),
               longitude = Fin (- (538406215061445 / 4398046511104))\<rparr> sample_payload))),
      [request_url api_key \<lparr>latitude = Fin (332271534304605 / 8796093022208),
                           longitude = Fin (- (538406215061445 / 4398046511104))\<rparr>])"
    by (simp add: call_tool_handler_def try_block_def sample_arguments_parse sample_fetch_def)
  show ?thesis
    by (simp only: handler sample_weather url rendered decimal_37_7749 decimal_minus_122_4194 decimal_3_6)
qed

section \<open>Validation of the coordinates\<close>

text \<open>
  C2. For every pair of numbers \<open>(lat, lon)\<close> with \<open>lat\<close> in \<open>[-90, 90]\<close> and \<open>lon\<close> in
  \<open>[-180, 180]\<close>, given as the fields \<open>latitude\<close> and \<open>longitude\<close> of the arguments
  object, validation succeeds and the validated input carries exactly these two values.
\<close>

theorem validation_keeps_coordinates:
  assumes "map_of props (js ''latitude'') = Some (JNumber (Fin lat))"
    and "map_of props (js ''longitude'') = Some (JNumber (Fin lon))"
    and "- 90 \<le> lat" and "lat \<le> 90" and "- 180 \<le> lon" and "lon \<le> 180"
  shows "weatherToolSchema_parse (JObject props) = Inr \<lparr>latitude = Fin lat, longitude = Fin lon\<rparr>"
  unfolding parse_accepts using assms by simp

theorem validation_keeps_coordinates_witness:
  "weatherToolSchema_parse (arguments_of (JNumber (Fin 90)) (JNumber (Fin (- 180)))) =
     Inr \<lparr>latitude = Fin 90, longitude = Fin (- 180)\<rparr>
   \<and> weatherToolSchema_parse
       (JObject [(js ''longitude'', JNumber (Fin (45 / 2))), (js ''units'', JString (js ''metric'')),
                 (js ''latitude'', JNumber (Fin (- 90)))]) =
     Inr \<lparr>latitude = Fin (- 90), longitude = Fin (45 / 2)\<rparr>"
proof
  show "weatherToolSchema_parse (arguments_of (JNumber (Fin 90)) (JNumber (Fin (- 180)))) =
     Inr \<lparr>latitude = Fin 90, longitude = Fin (- 180)\<rparr>"
    unfolding arguments_of_def
    by (rule validation_keeps_coordinates) (simp_all add: js_def)
  show "weatherToolSchema_parse
       (JObject [(js ''longitude'', JNumber (Fin (45 / 2))), (js ''units'', JString (js ''metric'')),
                 (js ''latitude'', JNumber (Fin (- 90)))]) =
     Inr \<lparr>latitude = Fin (- 90), longitude = Fin (45 / 2)\<rparr>"
    by (rule validation_keeps_coordinates) (simp_all add: js_def)
qed

text \<open>
  C3. When the arguments of a \<open>get_weather\<close> call are not an object with numeric
  \<open>latitude\<close> in \<open>[-90, 90]\<close> and numeric \<open>longitude\<close> in \<open>[-180, 180]\<close>, the handler
  fails with an \<open>InvalidParams\<close> error and makes no outbound call. The error's message is
  \<open>Invalid parameters: \<close> followed by the validation library's rendering of the failed
  constraints, and these are exactly: for each of the two fields, \<open>too_small\<close> with the
  field and the lower bound when the number is below it, \<open>too_big\<close> with the field and
  the upper bound when the number is above it, and \<open>invalid_type\<close> with the field and the
  type received when the field is missing or not a number; a field within its bounds
  contributes nothing, and arguments that are no object at all fail the one constraint
  that an object was expected.
\<close>

theorem invalid_coordinates_rejected:
  assumes "name params = js ''get_weather''"
    and "\<not> valid_coordinates (arguments params)"
  shows "\<exists>issues. issues \<noteq> []
           \<and> weatherToolSchema_parse (arguments params) = Inl issues
           \<and> call_tool_handler zod_message fetch api_key params =
               (Inl (McpError InvalidParams (js ''Invalid parameters: '' @ zod_message issues)), [])
           \<and> (\<forall>props. arguments params = JObject props \<longrightarrow>
                 issues =
                   failed_constraints (- 90) 90 (js ''latitude'')
                     (property (JObject props) (js ''latitude''))
                   @ failed_constraints (- 180) 180 (js ''longitude'')
                       (property (JObject props) (js ''longitude'')))
           \<and> ((\<forall>props. arguments params \<noteq> JObject props) \<longrightarrow>
                 issues = [invalid_type [] (js ''object'') (parsed_type (arguments params))])"
proof -
  from assms(2) obtain issues where rejected: "weatherToolSchema_parse (arguments params) = Inl issues"
    unfolding parse_valid_coordinates by (cases "weatherToolSchema_parse (arguments params)") auto
  then have "issues \<noteq> []"
    by (rule parse_rejects)
  moreover have "call_tool_handler zod_message fetch api_key params =
      (Inl (McpError InvalidParams (js ''Invalid parameters: '' @ zod_message issues)), [])"
    by (simp add: call_tool_handler_def try_block_def assms(1) rejected)
  moreover have "issues =
      failed_constraints (- 90) 90 (js ''latitude'') (property (JObject props) (js ''latitude''))
      @ failed_constraints (- 180) 180 (js ''longitude'') (property (JObject props) (js ''longitude''))"
    if "arguments params = JObject props" for props
    using rejected unfolding that by (rule parse_failed_constraints)
  moreover have "issues = [invalid_type [] (js ''object'') (parsed_type (arguments params))]"
    if "\<forall>props. arguments params \<noteq> JObject props"
    using rejected parse_not_object [OF that] by simp
  ultimately show ?thesis
    using rejected by blast
qed

theorem invalid_coordinates_rejected_witness:
  "\<forall>fetch api_key.
     call_tool_handler plain_zod_message fetch api_key
       \<lparr>name = js ''get_weather'', arguments = arguments_of (JNumber (Fin 91)) (JNumber (Fin 0))\<rparr> =
       (Inl (McpError InvalidParams
          (js ''Invalid parameters: Number must be less than or equal to 90'')), [])
     \<and> call_tool_handler plain_zod_message fetch api_key
         \<lparr>name = js ''get_weather'', arguments = arguments_of (JNumber (Fin 0)) (JNumber (Fin 181))\<rparr> =
         (Inl (McpError InvalidParams
            (js ''Invalid parameters: Number must be less than or equal to 180'')), [])
     \<and> call_tool_handler plain_zod_message fetch api_key
         \<lparr>name = js ''get_weather'', arguments = JObject [(js ''longitude'', JNumber (Fin 0))]\<rparr> =
         (Inl (McpError InvalidParams
            (js ''Invalid parameters: Expected number, received undefined'')), [])
     \<and> call_tool_handler plain_zod_message fetch api_key
         \<lparr>name = js ''get_weather'',
          arguments = arguments_of (JString (js ''37.7'')) (JNumber (Fin 0))\<rparr> =
         (Inl (McpError InvalidParams
            (js ''Invalid parameters: Expected number, received string'')), [])"
proof (intro allI)
  fix fetch :: fetch and api_key :: js_string
  have result: "call_tool_handler plain_zod_message fetch api_key
         \<lparr>name = js ''get_weather'', arguments = JObject props\<rparr> =
       (Inl (McpError InvalidParams (js ''Invalid parameters: '' @ plain_zod_message
          (failed_constraints (- 90) 90 (js ''latitude'') (property (JObject props) (js ''latitude''))
           @ failed_constraints (- 180) 180 (js ''longitude'')
               (property (JObject props) (js ''longitude''))))), [])"
    if "weatherToolSchema_parse (JObject props) = Inl issues" for props issues
  proof -
    have "\<not> valid_coordinates (arguments \<lparr>name = js ''get_weather'', arguments = JObject props\<rparr>)"
      using that by (auto simp: not_valid_iff)
    from invalid_coordinates_rejected
      [where params = "\<lparr>name = js ''get_weather'', arguments = JObject props\<rparr>"
         and zod_message = plain_zod_message and fetch = fetch and api_key = api_key, OF _ this]
    show ?thesis
      by auto
  qed
  have too_far_north: "call_tool_handler plain_zod_message fetch api_key
       \<lparr>name = js ''get_weather'', arguments = arguments_of (JNumber (Fin 91)) (JNumber (Fin 0))\<rparr> =
       (Inl (McpError InvalidParams
          (js ''Invalid parameters: Number must be less than or equal to 90'')), [])"
    unfolding arguments_of_def
    by (subst result [OF parse_latitude_91 [unfolded arguments_of_def]])
       (simp add: plain_zod_message_def string_90 js_def)
  have too_far_east: "call_tool_handler plain_zod_message fetch api_key
         \<lparr>name = js ''get_weather'', arguments = arguments_of (JNumber (Fin 0)) (JNumber (Fin 181))\<rparr> =
         (Inl (McpError InvalidParams
            (js ''Invalid parameters: Number must be less than or equal to 180'')), [])"
    unfolding arguments_of_def
    by (subst result [OF parse_longitude_181 [unfolded arguments_of_def]])
       (simp add: plain_zod_message_def string_180 js_def)
  have missing: "call_tool_handler plain_zod_message fetch api_key
         \<lparr>name = js ''get_weather'', arguments = JObject [(js ''longitude'', JNumber (Fin 0))]\<rparr> =
         (Inl (McpError InvalidParams
            (js ''Invalid parameters: Expected number, received undefined'')), [])"
    by (subst result [OF parse_latitude_missing])
       (simp add: plain_zod_message_def js_def)
  have not_a_number: "call_tool_handler plain_zod_message fetch api_key
         \<lparr>name = js ''get_weather'',
          arguments = arguments_of (JString (js ''37.7'')) (JNumber (Fin 0))\<rparr> =
         (Inl (McpError InvalidParams
            (js ''Invalid parameters: Expected number, received string'')), [])"
    unfolding arguments_of_def
    by (subst result [OF parse_latitude_string [unfolded arguments_of_def]])
       (simp add: plain_zod_message_def js_def)
  from too_far_north too_far_east missing not_a_number
  show "call_tool_handler plain_zod_message fetch api_key
       \<lparr>name = js ''get_weather'', arguments = arguments_of (JNumber (Fin 91)) (JNumber (Fin 0))\<rparr> =
       (Inl (McpError InvalidParams
          (js ''Invalid parameters: Number must be less than or equal to 90'')), [])
     \<and> call_tool_handler plain_zod_message fetch api_key
         \<lparr>name = js ''get_weather'', arguments = arguments_of (JNumber (Fin 0)) (JNumber (Fin 181))\<rparr> =
         (Inl (McpError InvalidParams
            (js ''Invalid parameters: Number must be less than or equal to 180'')), [])
     \<and> call_tool_handler plain_zod_message fetch api_key
         \<lparr>name = js ''get_weather'', arguments = JObject [(js ''longitude'', JNumber (Fin 0))]\<rparr> =
         (Inl (McpError InvalidParams
            (js ''Invalid parameters: Expected number, received undefined'')), [])
     \<and> call_tool_handler plain_zod_message fetch api_key
         \<lparr>name = js ''get_weather'',
          arguments = arguments_of (JString (js ''37.7'')) (JNumber (Fin 0))\<rparr> =
         (Inl (McpError InvalidParams
            (js ''Invalid parameters: Expected number, received string'')), [])"
    by blast
qed

section \<open>Upstream failures\<close>

text \<open>
  C4. When the upstream response is not \<open>ok\<close>, the handler fails with an
  \<open>InternalError\<close> whose message contains the status code as the template literal
  prints it; for status 500 the message contains \<open>500\<close>.
\<close>

theorem upstream_failure_internal_error:
  assumes "name params = js ''get_weather''"
    and "weatherToolSchema_parse (arguments params) = Inr input"
    and "fetch (request_url api_key input) = Inr response"
    and "\<not> ok response"
  shows "\<exists>message.
           call_tool_handler zod_message fetch api_key params =
             (Inl (McpError InternalError message), [request_url api_key input])
           \<and> message = js ''Error fetching weather data: Weather API returned ''
                       @ number_to_string (status response) @ js '': '' @ statusText response
           \<and> sublist (number_to_string (status response)) message
           \<and> (status response = Fin 500 \<longrightarrow> sublist (js ''500'') message)"
proof -
  let ?message = "js ''Error fetching weather data: Weather API returned ''
                       @ number_to_string (status response) @ js '': '' @ statusText response"
  have "call_tool_handler zod_message fetch api_key params =
          (Inl (McpError InternalError ?message), [request_url api_key input])"
    by (simp add: call_tool_handler_def try_block_def assms js_def)
  moreover have code: "sublist (number_to_string (status response)) ?message"
    by (rule sublist_appendI)
  moreover have "status response = Fin 500 \<longrightarrow> sublist (js ''500'') ?message"
    using code by (simp add: string_500)
  ultimately show ?thesis
    by blast
qed

theorem upstream_failure_internal_error_witness:
  "\<forall>zod_message api_key.
     call_tool_handler zod_message failing_fetch api_key
       \<lparr>name = js ''get_weather'', arguments = sample_arguments\<rparr> =
     (Inl (McpError InternalError
        (js ''Error fetching weather data: Weather API returned 500: Internal Server Error'')),
      [js ''https://api.openweathermap.org/data/3.0/onecall?lat=37.7749&lon=-122.4194''
       @ js ''&exclude=minutely,hourly,daily,alerts&appid='' @ api_key @ js ''&units=metric''])
     \<and> sublist (js ''500'')
          (js ''Error fetching weather data: Weather API returned 500: Internal Server Error'')"
proof (intro allI)
  fix zod_message :: "zod_issue list \<Rightarrow> js_string" and api_key :: js_string
  let ?params = "\<lparr>name = js ''get_weather'', arguments = sample_arguments\<rparr>"
  let ?input = "\<lparr>latitude = Fin (332271534304605 / 8796093022208),
                 longitude = Fin (- (538406215061445 / 4398046511104))\<rparr>"
  let ?response = "\<lparr>ok = False, status = Fin 500, statusText = js ''Internal Server Error'',
                    json = Inl NonError\<rparr>"
  have url: "request_url api_key ?input =
     js ''https://api.openweathermap.org/data/3.0/onecall?lat=37.7749&lon=-122.4194''
     @ js ''&exclude=minutely,hourly,daily,alerts&appid='' @ api_key @ js ''&units=metric''"
    by (simp add: request_url_def string_37_7749 string_minus_122_4194) (simp add: js_def)
  have message: "js ''Error fetching weather data: Weather API returned ''
      @ number_to_string (status ?response) @ js '': '' @ statusText ?response =
      js ''Error fetching weather data: Weather API returned 500: Internal Server Error''"
    by (simp add: string_500) (simp add: js_def)
  from upstream_failure_internal_error [of ?params ?input failing_fetch api_key ?response zod_message]
  have "call_tool_handler zod_message failing_fetch api_key ?params =
          (Inl (McpError InternalError
            (js ''Error fetching weather data: Weather API returned ''
             @ number_to_string (status ?response) @ js '': '' @ statusText ?response)),
           [request_url api_key ?input])
        \<and> sublist (js ''500'')
            (js ''Error fetching weather data: Weather API returned ''
             @ number_to_string (status ?response) @ js '': '' @ statusText ?response)"
    by (simp add: sample_arguments_parse failing_fetch_def)
  then show "call_tool_handler zod_message failing_fetch api_key ?params =
     (Inl (McpError InternalError
        (js ''Error fetching weather data: Weather API returned 500: Internal Server Error'')),
      [js ''https://api.openweathermap.org/data/3.0/onecall?lat=37.7749&lon=-122.4194''
       @ js ''&exclude=minutely,hourly,daily,alerts&appid='' @ api_key @ js ''&units=metric''])
     \<and> sublist (js ''500'')
          (js ''Error fetching weather data: Weather API returned 500: Internal Server Error'')"
    unfolding url message .
qed

section \<open>A payload without a description\<close>

text \<open>
  C5. When the upstream payload's \<open>current.weather\<close> list is empty, the handler renders
  the description as \<open>Unknown\<close>; the humidity is the payload's value and the temperature
  and the wind speed are the payload's values rounded to one decimal, whatever these
  numbers are: none of them is validated.
\<close>

theorem empty_weather_list_unknown:
  assumes "name params = js ''get_weather''"
    and "weatherToolSchema_parse (arguments params) = Inr input"
    and "fetch (request_url api_key input) = Inr response"
    and "ok response"
    and "json response = Inr data"
    and "weather (current data) = []"
  shows "weather_of input data =
           \<lparr>description = js ''Unknown'',
            temperature = js_div (Math_round (js_mul (temp (current data)) (Fin 10))) (Fin 10),
            humidity = Current.humidity (current data),
            windSpeed = js_div (Math_round (js_mul (wind_speed (current data)) (Fin 10))) (Fin 10),
            location = number_to_string (latitude input) @ js '', '' @ number_to_string (longitude input)\<rparr>
         \<and> call_tool_handler zod_message fetch api_key params =
           (Inr (text_content
              (js ''Weather at coordinates '' @ number_to_string (latitude input) @ js '', ''
               @ number_to_string (longitude input) @ js '':'' @ [newline]
               @ [bullet] @ js '' Conditions: Unknown'' @ [newline]
               @ [bullet] @ js '' Temperature: ''
               @ number_to_string (js_div (Math_round (js_mul (temp (current data)) (Fin 10))) (Fin 10))
               @ [degree_sign] @ js ''C'' @ [newline]
               @ [bullet] @ js '' Humidity: '' @ number_to_string (Current.humidity (current data))
               @ js ''%'' @ [newline]
               @ [bullet] @ js '' Wind Speed: ''
               @ number_to_string (js_div (Math_round (js_mul (wind_speed (current data)) (Fin 10))) (Fin 10))
               @ js '' m/s'')),
            [request_url api_key input])"
proof
  show report: "weather_of input data =
           \<lparr>description = js ''Unknown'',
            temperature = js_div (Math_round (js_mul (temp (current data)) (Fin 10))) (Fin 10),
            humidity = Current.humidity (current data),
            windSpeed = js_div (Math_round (js_mul (wind_speed (current data)) (Fin 10))) (Fin 10),
            location = number_to_string (latitude input) @ js '', '' @ number_to_string (longitude input)\<rparr>"
    by (simp add: weather_of_def description_or_unknown_def assms(6))
  have "call_tool_handler zod_message fetch api_key params =
          (Inr (text_content (report_text (weather_of input data))), [request_url api_key input])"
    by (simp add: call_tool_handler_def try_block_def assms)
  then show "call_tool_handler zod_message fetch api_key params =
           (Inr (text_content
              (js ''Weather at coordinates '' @ number_to_string (latitude input) @ js '', ''
               @ number_to_string (longitude input) @ js '':'' @ [newline]
               @ [bullet] @ js '' Conditions: Unknown'' @ [newline]
               @ [bullet] @ js '' Temperature: ''
               @ number_to_string (js_div (Math_round (js_mul (temp (current data)) (Fin 10))) (Fin 10))
               @ [degree_sign] @ js ''C'' @ [newline]
               @ [bullet] @ js '' Humidity: '' @ number_to_string (Current.humidity (current data))
               @ js ''%'' @ [newline]
               @ [bullet] @ js '' Wind Speed: ''
               @ number_to_string (js_div (Math_round (js_mul (wind_speed (current data)) (Fin 10))) (Fin 10))
               @ js '' m/s'')),
            [request_url api_key input])"
    by (simp add: report report_text_def js_def)
qed

theorem empty_weather_list_unknown_witness:
  "\<forall>zod_message api_key.
     call_tool_handler zod_message empty_weather_fetch api_key
       \<lparr>name = js ''get_weather'', arguments = sample_arguments\<rparr> =
     (Inr (text_content
        (js ''Weather at coordinates 37.7749, -122.4194:'' @ [newline]
         @ [bullet] @ js '' Conditions: Unknown'' @ [newline]
         @ [bullet] @ js '' Temperature: 15'' @ [degree_sign] @ js ''C'' @ [newline]
         @ [bullet] @ js '' Humidity: -5%'' @ [newline]
         @ [bullet] @ js '' Wind Speed: 0 m/s'')),
      [js ''https://api.openweathermap.org/data/3.0/onecall?lat=37.7749&lon=-122.4194''
       @ js ''&exclude=minutely,hourly,daily,alerts&appid='' @ api_key @ js ''&units=metric''])"
proof (intro allI)
  fix zod_message :: "zod_issue list \<Rightarrow> js_string" and api_key :: js_string
  let ?params = "\<lparr>name = js ''get_weather'', arguments = sample_arguments\<rparr>"
  let ?input = "\<lparr>latitude = Fin (332271534304605 / 8796093022208),
                 longitude = Fin (- (538406215061445 / 4398046511104))\<rparr>"
  let ?response = "\<lparr>ok = True, status = Fin 200, statusText = js ''OK'',
                    json = Inr empty_weather_payload\<rparr>"
  have url: "request_url api_key ?input =
     js ''https://api.openweathermap.org/data/3.0/onecall?lat=37.7749&lon=-122.4194''
     @ js ''&exclude=minutely,hourly,daily,alerts&appid='' @ api_key @ js ''&units=metric''"
    by (simp add: request_url_def string_37_7749 string_minus_122_4194) (simp add: js_def)
  have "call_tool_handler zod_message empty_weather_fetch api_key ?params =
          (Inr (text_content
              (js ''Weather at coordinates '' @ number_to_string (latitude ?input) @ js '', ''
               @ number_to_string (longitude ?input) @ js '':'' @ [newline]
               @ [bullet] @ js '' Conditions: Unknown'' @ [newline]
               @ [bullet] @ js '' Temperature: ''
               @ number_to_string (js_div (Math_round (js_mul (temp (current empty_weather_payload)) (Fin 10))) (Fin 10))
               @ [degree_sign] @ js ''C'' @ [newline]
               @ [bullet] @ js '' Humidity: '' @ number_to_string (Current.humidity (current empty_weather_payload))
               @ js ''%'' @ [newline]
               @ [bullet] @ js '' Wind Speed: ''
               @ number_to_string (js_div (Math_round (js_mul (wind_speed (current empty_weather_payload)) (Fin 10))) (Fin 10))
               @ js '' m/s'')),
            [request_url api_key ?input])"
    using empty_weather_list_unknown
      [of ?params ?input empty_weather_fetch api_key ?response empty_weather_payload zod_message]
    by (simp add: sample_arguments_parse empty_weather_fetch_def empty_weather_payload_def)
  then show "call_tool_handler zod_message empty_weather_fetch api_key ?params =
     (Inr (text_content
        (js ''Weather at coordinates 37.7749, -122.4194:'' @ [newline]
         @ [bullet] @ js '' Conditions: Unknown'' @ [newline]
         @ [bullet] @ js '' Temperature: 15'' @ [degree_sign] @ js ''C'' @ [newline]
         @ [bullet] @ js '' Humidity: -5%'' @ [newline]
         @ [bullet] @ js '' Wind Speed: 0 m/s'')),
      [js ''https://api.openweathermap.org/data/3.0/onecall?lat=37.7749&lon=-122.4194''
       @ js ''&exclude=minutely,hourly,daily,alerts&appid='' @ api_key @ js ''&units=metric''])"
    by (simp add: url empty_weather_payload_def round_15 round_0 string_15 string_0 string_minus_5
        string_37_7749 string_minus_122_4194)
       (simp add: js_def)
qed

section \<open>Lines\<close>

lemma split_without_separator: "sep \<notin> set line \<Longrightarrow> split sep line = [line]"
  by (induction line) auto

lemma split_first_line:
  "sep \<notin> set line \<Longrightarrow> split sep (line @ sep # rest) = line # split sep rest"
  by (induction line) auto

lemma split_not_empty: "split sep s \<noteq> []"
  by (cases s) (auto split: list.splits)

lemma join_split: "join [sep] (split sep s) = s"
proof (induction s)
  case Nil
  show ?case by simp
next
  case (Cons c s)
  obtain l ls where ls: "split sep s = l # ls"
    using split_not_empty [of sep s] by (cases "split sep s") auto
  show ?case
  proof (cases "c = sep")
    case True
    with Cons ls show ?thesis by simp
  next
    case False
    with Cons ls show ?thesis by (cases ls) auto
  qed
qed

lemma split_join:
  "lines \<noteq> [] \<Longrightarrow> \<forall>line \<in> set lines. sep \<notin> set line \<Longrightarrow> split sep (join [sep] lines) = lines"
proof (induction lines)
  case Nil
  then show ?case by simp
next
  case (Cons l ls)
  show ?case
  proof (cases ls)
    case Nil
    with Cons.prems show ?thesis
      by (simp add: split_without_separator)
  next
    case (Cons m ms)
    with Cons.IH Cons.prems have "split sep (join [sep] (m # ms)) = m # ms"
      by simp
    moreover have "sep \<notin> set l"
      using Cons.prems by simp
    ultimately show ?thesis
      using Cons by (simp add: split_first_line)
  qed
qed

lemma trim_empty_iff: "trim line = [] \<longleftrightarrow> list_all is_whitespace line"
proof -
  let ?rest = "dropWhile is_whitespace line"
  have "trim line = [] \<longleftrightarrow> dropWhile is_whitespace (rev ?rest) = []"
    by (simp only: trim_def rev_is_Nil_conv)
  also have "\<dots> \<longleftrightarrow> (\<forall>c \<in> set ?rest. is_whitespace c)"
    by (simp only: dropWhile_eq_Nil_conv set_rev)
  also have "\<dots> \<longleftrightarrow> ?rest = []"
    using hd_dropWhile [of is_whitespace line] by (cases ?rest) (auto dest: set_dropWhileD)
  also have "\<dots> \<longleftrightarrow> list_all is_whitespace line"
    by (simp only: dropWhile_eq_Nil_conv list_all_iff)
  finally show ?thesis .
qed

lemma truthy_trim: "truthy_string (trim line) \<longleftrightarrow> \<not> blank line"
  by (simp add: truthy_string_def blank_def trim_empty_iff)

lemma request_lines_not_blank:
  "request_lines body = filter (\<lambda>line. \<not> blank line) (split newline body)"
  by (simp add: request_lines_def truthy_trim)

lemma process_lines_map:
  "process_lines parse server_request lines responses =
     responses @ map (\<lambda>line. pushed (JSON_stringify (line_response parse server_request line))) lines"
  by (induction lines arbitrary: responses) simp_all

section \<open>The text JSON.stringify produces\<close>

lemma digits_of_range: "c \<in> set (digits_of n) \<Longrightarrow> 48 \<le> c"
proof (induction n rule: digits_of.induct)
  case (1 n)
  then show ?case
    by (subst (asm) (2) digits_of.simps) (auto split: if_splits)
qed

lemma newline_not_in_digits: "newline \<notin> set (digits_of n)"
  using digits_of_range [of newline n] by (auto simp: newline_def)

lemma newline_not_in_format_digits:
  assumes "newline \<notin> set ds"
  shows "newline \<notin> set (format_digits ds n)"
proof -
  have "newline \<notin> set (take k ds)" and "newline \<notin> set (drop k ds)" for k
    using assms by (auto dest: in_set_takeD in_set_dropD)
  moreover have "newline \<notin> set (exponent_part e)" for e
    using newline_not_in_digits [of "\<bar>e\<bar>"] by (simp add: exponent_part_def js_def newline_def)
  moreover have "newline \<notin> set (replicate k 48)" for k
    by (simp add: newline_def)
  ultimately show ?thesis
    using assms by (simp add: format_digits_def js_def newline_def)
qed

lemma newline_not_in_number: "newline \<notin> set (number_to_string n)"
proof -
  have positive: "newline \<notin> set (positive_to_string x)" for x
    by (simp add: positive_to_string_def format_decimal_def newline_not_in_format_digits
        newline_not_in_digits)
  have "newline \<notin> set (number_to_string (Fin x))" for x
    using positive [of x] positive [of "- x"]
    by (simp add: number_to_string.simps js_def newline_def)
  then show ?thesis
    by (cases n) (simp_all add: number_to_string.simps js_def newline_def)
qed

lemma hex_digit_range: "48 \<le> hex_digit d"
  by (simp add: hex_digit_def)

lemma newline_not_in_unicode_escape: "newline \<notin> set (unicode_escape c)"
  using hex_digit_range [of "c div 4096 mod 16"] hex_digit_range [of "c div 256 mod 16"]
    hex_digit_range [of "c div 16 mod 16"] hex_digit_range [of "c mod 16"]
  by (auto simp: unicode_escape_def newline_def)

lemma newline_not_in_escape_unit: "newline \<notin> set (escape_unit c)"
  using newline_not_in_unicode_escape [of c] by (auto simp: escape_unit_def newline_def)

lemma newline_not_in_escape_units: "newline \<notin> set (escape_units s)"
proof (induction s rule: escape_units.induct)
  case (3 c d cs)
  then show ?case
    using newline_not_in_unicode_escape [of c] newline_not_in_escape_unit [of c]
    by (auto simp: high_surrogate_def low_surrogate_def newline_def)
qed (simp_all add: newline_not_in_unicode_escape newline_not_in_escape_unit)

lemma newline_not_in_quote: "newline \<notin> set (quote s)"
  using newline_not_in_escape_units [of s] by (simp add: quote_def newline_def)

lemma comma_join_without_newline:
  "\<forall>t \<in> set ts. newline \<notin> set t \<Longrightarrow> newline \<notin> set (join (js '','') ts)"
  by (induction "js '',''" ts rule: join.induct) (auto simp: js_def newline_def)

lemma newline_not_in_stringify:
  "(\<forall>t. JSON_stringify v = Some t \<longrightarrow> newline \<notin> set t)"
  "(\<forall>t \<in> set (stringify_elements xs). newline \<notin> set t)"
  "(\<forall>t \<in> set (stringify_members props). newline \<notin> set t)"
proof (induction v and xs and props rule: JSON_stringify_stringify_elements_stringify_members.induct)
  case (4 n)
  then show ?case
    using newline_not_in_number [of n] by (cases n) (simp_all add: js_def newline_def)
next
  case (6 xs)
  then have "newline \<notin> set (join (js '','') (stringify_elements xs))"
    by (rule comma_join_without_newline)
  then show ?case
    by (simp add: js_def newline_def)
next
  case (7 props)
  then have "newline \<notin> set (join (js '','') (stringify_members props))"
    by (rule comma_join_without_newline)
  then show ?case
    by (simp add: js_def newline_def)
next
  case (9 x xs)
  then show ?case
    by (cases "JSON_stringify x") (simp_all add: js_def newline_def)
next
  case (11 key v props)
  then show ?case
    using newline_not_in_quote [of key]
    by (cases "JSON_stringify v") (simp_all add: js_def newline_def)
next
  case (5 s)
  then show ?case
    by (simp add: newline_not_in_quote)
qed (simp_all add: js_def newline_def)

lemma newline_not_in_pushed: "newline \<notin> set (pushed (JSON_stringify v))"
  using newline_not_in_stringify(1) [of v] by (cases "JSON_stringify v") (simp_all add: pushed_def)

section \<open>Properties of the batch loop\<close>

lemma stringify_errorResponse: "JSON_stringify errorResponse = Some parse_error_line"
  by (simp add: errorResponse_def parse_error_line_def quote_def escape_unit_def
      high_surrogate_def low_surrogate_def number_eval)

lemma mcp_post_lines:
  "body \<noteq> [] \<Longrightarrow>
   mcp_post parse server_request (Inr body) =
     NdjsonResponse
       (join [newline]
          (map (\<lambda>line. pushed (JSON_stringify (line_response parse server_request line)))
             (filter (\<lambda>line. \<not> blank line) (split newline body))))
       ndjson_headers"
  by (simp add: mcp_post_def truthy_string_def process_lines_map request_lines_not_blank)


lemma line_response_unparsable:
  "parse line = Inl thrown \<Longrightarrow> line_response parse server_request line = errorResponse"
  by (simp add: line_response_def line_try_def)

lemma dispatch_tools_call:
  "property request (js ''method'') = JString (js ''tools/call'') \<Longrightarrow>
   dispatch server_request request =
     (case server_request request CallToolRequestSchema of
        Inl rejected \<Rightarrow> Inl (Rejected rejected)
      | Inr response \<Rightarrow> Inr (responseData request response))"
  by (cases request) (auto simp: dispatch_def get_property_def js_def)

lemma dispatch_tools_list:
  "property request (js ''method'') = JString (js ''tools/list'') \<Longrightarrow>
   dispatch server_request request =
     (case server_request tools_list_request ListToolsRequestSchema of
        Inl rejected \<Rightarrow> Inl (Rejected rejected)
      | Inr response \<Rightarrow> Inr (responseData request response))"
  by (cases request) (auto simp: dispatch_def get_property_def)

lemma dispatch_other_method:
  "request \<noteq> JNull \<Longrightarrow> request \<noteq> JUndefined \<Longrightarrow>
   property request (js ''method'') \<noteq> JString (js ''tools/list'') \<Longrightarrow>
   property request (js ''method'') \<noteq> JString (js ''tools/call'') \<Longrightarrow>
   dispatch server_request request = Inr (responseData request (method_not_found request))"
  by (simp add: dispatch_def get_property_def)

lemma dispatch_null:
  "request = JNull \<or> request = JUndefined \<Longrightarrow>
   dispatch server_request request = Inl (Thrown (Error (type_error_message request (js ''method''))))"
  by (auto simp: dispatch_def get_property_def)

lemma dispatch_thrown_cases:
  assumes "dispatch server_request request = Inl thrown"
  shows "(request = JNull \<or> request = JUndefined)
           \<and> thrown = Thrown (Error (type_error_message request (js ''method'')))
         \<or> (\<exists>rejected. thrown = Rejected rejected
               \<and> property request (js ''method'') = JString (js ''tools/list'')
               \<and> server_request tools_list_request ListToolsRequestSchema = Inl rejected)
         \<or> (\<exists>rejected. thrown = Rejected rejected
               \<and> property request (js ''method'') = JString (js ''tools/call'')
               \<and> server_request request CallToolRequestSchema = Inl rejected)"
proof (cases "request = JNull \<or> request = JUndefined")
  case True
  with assms show ?thesis
    by (auto simp: dispatch_def get_property_def)
next
  case False
  with assms show ?thesis
    by (auto simp: dispatch_def get_property_def split: if_splits sum.splits)
qed




lemma line_response_thrown:
  "parse line = Inr request \<Longrightarrow> dispatch server_request request = Inl thrown \<Longrightarrow>
   line_response parse server_request line = errorResponse"
  by (simp add: line_response_def line_try_def)

section \<open>The sample lines\<close>

lemma parse_line_call: "sample_parse line_call = Inr request_call"
  by (simp add: sample_parse_def)

lemma parse_line_unknown: "sample_parse line_unknown = Inr request_unknown"
  by (simp add: sample_parse_def line_unknown_def line_call_def js_def)

lemma parse_line_out_of_range: "sample_parse line_out_of_range = Inr request_out_of_range"
  by (simp add: sample_parse_def line_unknown_def line_call_def line_out_of_range_def js_def)

lemma parse_not_json: "sample_parse (js ''not json'') = Inl (Error (js ''Unexpected token''))"
  by (simp add: sample_parse_def line_unknown_def line_call_def line_out_of_range_def js_def)

lemma line_call_plain: "newline \<notin> set line_call \<and> \<not> blank line_call"
  by (simp add: line_call_def js_def newline_def blank_def is_whitespace_def)

lemma line_out_of_range_plain: "newline \<notin> set line_out_of_range \<and> \<not> blank line_out_of_range"
  by (simp add: line_out_of_range_def js_def newline_def blank_def is_whitespace_def)





lemma local_out_of_range_result:
  "local_server fetch api_key request_out_of_range CallToolRequestSchema =
     Inl (McpError InvalidParams (js ''Invalid parameters: Number must be less than or equal to 90''))"
proof -
  have "local_server fetch api_key request_out_of_range CallToolRequestSchema =
    fst (call_tool_handler plain_zod_message fetch api_key
          \<lparr>name = js ''get_weather'', arguments = arguments_of (JNumber (Fin 91)) (JNumber (Fin 0))\<rparr>)"
    by (simp add: local_server_def request_out_of_range_def js_def)
  also have "\<dots> = Inl (McpError InvalidParams
      (js ''Invalid parameters: '' @ plain_zod_message [too_big [js ''latitude''] (Fin 90)]))"
    by (simp add: call_tool_handler_def try_block_def parse_latitude_91)
  also have "js ''Invalid parameters: '' @ plain_zod_message [too_big [js ''latitude''] (Fin 90)] =
      js ''Invalid parameters: Number must be less than or equal to 90''"
    by (simp add: plain_zod_message_def string_90) (simp add: js_def)
  finally show ?thesis .
qed

lemma local_upstream_failure_result:
  "local_server failing_fetch api_key request_call CallToolRequestSchema =
     Inl (McpError InternalError
       (js ''Error fetching weather data: Weather API returned 500: Internal Server Error''))"
proof -
  have "local_server failing_fetch api_key request_call CallToolRequestSchema =
    fst (call_tool_handler plain_zod_message failing_fetch api_key
          \<lparr>name = js ''get_weather'', arguments = sample_arguments\<rparr>)"
    by (simp add: local_server_def request_call_def js_def)
  also have "\<dots> = Inl (McpError InternalError
      (js ''Error fetching weather data: '' @ js ''Weather API returned '' @ number_to_string (Fin 500)
       @ js '': '' @ js ''Internal Server Error''))"
    by (simp add: call_tool_handler_def try_block_def sample_arguments_parse failing_fetch_def)
  also have "js ''Error fetching weather data: '' @ js ''Weather API returned '' @ number_to_string (Fin 500)
       @ js '': '' @ js ''Internal Server Error'' =
       js ''Error fetching weather data: Weather API returned 500: Internal Server Error''"
    by (simp add: string_500) (simp add: js_def)
  finally show ?thesis .
qed

lemma request_call_method: "property request_call (js ''method'') = JString (js ''tools/call'')"
  by (simp add: request_call_def js_def)

lemma request_out_of_range_method:
  "property request_out_of_range (js ''method'') = JString (js ''tools/call'')"
  by (simp add: request_out_of_range_def js_def)

lemma unknown_line_pushed:
  "pushed (JSON_stringify (line_response sample_parse server_request line_unknown)) = unknown_method_line"
proof -
  have "dispatch server_request request_unknown =
      Inr (responseData request_unknown (method_not_found request_unknown))"
    by (rule dispatch_other_method) (simp_all add: request_unknown_def js_def)
  then show ?thesis
    unfolding line_response_def line_try_def parse_line_unknown sum.case
    by (simp add: pushed_def unknown_method_line_def quote_def escape_unit_def responseData_def
        method_not_found_def request_unknown_def
        high_surrogate_def low_surrogate_def number_eval)
qed

lemma pushed_errorResponse: "pushed (JSON_stringify errorResponse) = parse_error_line"
  by (simp add: stringify_errorResponse pushed_def)

lemma sample_body_lines:
  "filter (\<lambda>line. \<not> blank line) (split newline sample_body) = [line_unknown, js ''not json'']"
  by (simp add: sample_body_def line_unknown_def js_def newline_def blank_def is_whitespace_def)

section \<open>Unknown methods\<close>

text \<open>
  C6. A request line whose method is neither \<open>tools/list\<close> nor \<open>tools/call\<close> should be
  answered by the error object \<open>{code: -32601, message: "Method not found"}\<close> in the
  envelope \<open>{jsonrpc, id, error}\<close>. The loop builds exactly this envelope and then wraps
  it once more: for the line \<open>{"jsonrpc":"2.0","id":2,"method":"resources/list"}\<close> the
  emitted line has the envelope as its \<open>result\<close>, so it reads as a success.
\<close>

theorem unknown_method_wrapped_in_result:
  "\<forall>server_request :: 'e server_request.
     dispatch server_request request_unknown =
       Inr (JObject
         [(js ''jsonrpc'', JString (js ''2.0'')), (js ''id'', JNumber (Fin 2)),
          (js ''result'', JObject
             [(js ''jsonrpc'', JString (js ''2.0'')), (js ''id'', JNumber (Fin 2)),
              (js ''error'', JObject [(js ''code'', JNumber (Fin (- 32601))),
                                      (js ''message'', JString (js ''Method not found''))])])])
     \<and> mcp_post sample_parse server_request (Inr line_unknown) =
         NdjsonResponse unknown_method_line ndjson_headers"
proof (intro allI conjI)
  fix server_request :: "'e server_request"
  show response: "dispatch server_request request_unknown =
       Inr (JObject
         [(js ''jsonrpc'', JString (js ''2.0'')), (js ''id'', JNumber (Fin 2)),
          (js ''result'', JObject
             [(js ''jsonrpc'', JString (js ''2.0'')), (js ''id'', JNumber (Fin 2)),
              (js ''error'', JObject [(js ''code'', JNumber (Fin (- 32601))),
                                      (js ''message'', JString (js ''Method not found''))])])])"
    by (simp add: dispatch_def get_property_def request_unknown_def responseData_def
        method_not_found_def js_def)
  have parsed: "sample_parse line_unknown = Inr request_unknown"
    by (simp add: sample_parse_def line_unknown_def line_call_def js_def)
  have lines: "filter (\<lambda>line. \<not> blank line) (split newline line_unknown) = [line_unknown]"
    by (simp add: line_unknown_def js_def newline_def blank_def is_whitespace_def)
  have "pushed (JSON_stringify (line_response sample_parse server_request line_unknown)) =
          unknown_method_line"
    unfolding line_response_def line_try_def parsed sum.case response
    by (simp add: pushed_def unknown_method_line_def quote_def escape_unit_def
        high_surrogate_def low_surrogate_def number_eval)
  moreover have "line_unknown \<noteq> []"
    by (simp add: line_unknown_def js_def)
  ultimately show "mcp_post sample_parse server_request (Inr line_unknown) =
         NdjsonResponse unknown_method_line ndjson_headers"
    by (simp add: mcp_post_lines lines)
qed

section \<open>A batch with an invalid line\<close>



section \<open>Startup without the credential\<close>

text \<open>
  C8. When the credential is absent from the environment, loading the module throws and
  no application is exported: no route is ever served. When loading succeeds, the
  exported application is built around the one non-empty value read from the environment
  at that moment; it is a constant of the application, which every liveness probe
  reports as present.
\<close>

theorem missing_credential_is_fatal:
  "(env (js ''OPENWEATHER_API_KEY'') = None \<longrightarrow>
      handler parse server env =
        Inl (Error (js ''OPENWEATHER_API_KEY environment variable is required'')))
   \<and> (\<forall>serve. handler parse server env = Inr serve \<longrightarrow>
        (\<exists>api_key. env (js ''OPENWEATHER_API_KEY'') = Some api_key \<and> api_key \<noteq> []
           \<and> serve = app parse (server api_key) api_key
           \<and> (\<forall>timestamp. serve (GetHealth timestamp) =
                 JsonResponse
                   (JObject [(js ''status'', JString (js ''healthy'')),
                             (js ''timestamp'', JString timestamp),
                             (js ''service'', JString (js ''mcp-weather-server'')),
                             (js ''version'', JString (js ''1.0.0'')),
                             (js ''hasApiKey'', JBool True)])
                   200)))"
  by (auto simp: handler_def OPENWEATHER_API_KEY_def truthy_string_def app_def health_def
      split: option.splits if_splits)

theorem missing_credential_is_fatal_witness:
  "\<forall>(parse :: json_parse) (server :: js_string \<Rightarrow> 'e server_request).
     handler parse server Map.empty =
       Inl (Error (js ''OPENWEATHER_API_KEY environment variable is required''))
     \<and> handler parse server [js ''OPENWEATHER_API_KEY'' \<mapsto> js ''secret''] =
         Inr (app parse (server (js ''secret'')) (js ''secret''))
     \<and> app parse (server (js ''secret'')) (js ''secret'') (GetHealth (js ''2024-01-01T00:00:00.000Z'')) =
         JsonResponse
           (JObject [(js ''status'', JString (js ''healthy'')),
                     (js ''timestamp'', JString (js ''2024-01-01T00:00:00.000Z'')),
                     (js ''service'', JString (js ''mcp-weather-server'')),
                     (js ''version'', JString (js ''1.0.0'')),
                     (js ''hasApiKey'', JBool True)])
           200"
proof (intro allI)
  fix parse :: json_parse and server :: "js_string \<Rightarrow> 'e server_request"
  let ?env = "[js ''OPENWEATHER_API_KEY'' \<mapsto> js ''secret'']"
  obtain serve where serve: "handler parse server ?env = Inr serve"
    by (simp add: handler_def OPENWEATHER_API_KEY_def truthy_string_def js_def)
  with missing_credential_is_fatal [of ?env parse server]
  have "serve = app parse (server (js ''secret'')) (js ''secret'')
      \<and> (\<forall>timestamp. serve (GetHealth timestamp) =
             JsonResponse
               (JObject [(js ''status'', JString (js ''healthy'')),
                         (js ''timestamp'', JString timestamp),
                         (js ''service'', JString (js ''mcp-weather-server'')),
                         (js ''version'', JString (js ''1.0.0'')),
                         (js ''hasApiKey'', JBool True)])
               200)"
    by auto
  with serve missing_credential_is_fatal [of Map.empty parse server]
  show "handler parse server Map.empty =
       Inl (Error (js ''OPENWEATHER_API_KEY environment variable is required''))
     \<and> handler parse server ?env = Inr (app parse (server (js ''secret'')) (js ''secret''))
     \<and> app parse (server (js ''secret'')) (js ''secret'') (GetHealth (js ''2024-01-01T00:00:00.000Z'')) =
         JsonResponse
           (JObject [(js ''status'', JString (js ''healthy'')),
                     (js ''timestamp'', JString (js ''2024-01-01T00:00:00.000Z'')),
                     (js ''service'', JString (js ''mcp-weather-server'')),
                     (js ''version'', JString (js ''1.0.0'')),
                     (js ''hasApiKey'', JBool True)])
           200"
    by auto
qed

section \<open>Failures after parsing\<close>

text \<open>
  C9. When a line parses as JSON but the dispatch throws, the loop's \<open>catch\<close> answers
  with the same parse-error object as for an unparsable line, with \<open>id: null\<close>, code
  -32700 and message \<open>Parse error\<close>; what was thrown is not reported. The dispatch
  throws in three ways only: reading \<open>method\<close> of \<open>null\<close> throws a \<open>TypeError\<close>, or the
  server's \<open>request\<close> rejects for \<open>tools/list\<close>, or it rejects for \<open>tools/call\<close>, as it
  does for coordinates out of range or a failing upstream.
\<close>

theorem handler_failure_reported_as_parse_error:
  assumes "parse line = Inr request"
    and "dispatch server_request request = Inl thrown"
  shows "line_response parse server_request line = errorResponse
         \<and> pushed (JSON_stringify (line_response parse server_request line)) = parse_error_line
         \<and> (\<not> blank line \<and> newline \<notin> set line \<longrightarrow>
              mcp_post parse server_request (Inr line) = NdjsonResponse parse_error_line ndjson_headers)
         \<and> ((request = JNull \<or> request = JUndefined)
                \<and> thrown = Thrown (Error (type_error_message request (js ''method'')))
              \<or> (\<exists>rejected. thrown = Rejected rejected
                    \<and> property request (js ''method'') = JString (js ''tools/list'')
                    \<and> server_request tools_list_request ListToolsRequestSchema = Inl rejected)
              \<or> (\<exists>rejected. thrown = Rejected rejected
                    \<and> property request (js ''method'') = JString (js ''tools/call'')
                    \<and> server_request request CallToolRequestSchema = Inl rejected))"
proof -
  have response: "line_response parse server_request line = errorResponse"
    using assms by (rule line_response_thrown)
  then have pushed: "pushed (JSON_stringify (line_response parse server_request line)) = parse_error_line"
    by (simp add: stringify_errorResponse pushed_def)
  have "mcp_post parse server_request (Inr line) = NdjsonResponse parse_error_line ndjson_headers"
    if "\<not> blank line" and "newline \<notin> set line"
  proof -
    from that(1) have "line \<noteq> []"
      by (auto simp: blank_def)
    then show ?thesis
      using that by (simp add: mcp_post_lines split_without_separator pushed)
  qed
  with response pushed dispatch_thrown_cases [OF assms(2)] show ?thesis
    by blast
qed

theorem handler_failure_reported_as_parse_error_witness:
  "\<forall>fetch api_key.
     dispatch (local_server fetch api_key) request_out_of_range =
       Inl (Rejected (McpError InvalidParams
         (js ''Invalid parameters: Number must be less than or equal to 90'')))
     \<and> mcp_post sample_parse (local_server fetch api_key) (Inr line_out_of_range) =
         NdjsonResponse parse_error_line ndjson_headers
     \<and> dispatch (local_server failing_fetch api_key) request_call =
         Inl (Rejected (McpError InternalError
           (js ''Error fetching weather data: Weather API returned 500: Internal Server Error'')))
     \<and> mcp_post sample_parse (local_server failing_fetch api_key) (Inr line_call) =
         NdjsonResponse parse_error_line ndjson_headers"
proof (intro allI)
  fix fetch :: fetch and api_key :: js_string
  have range: "dispatch (local_server fetch api_key) request_out_of_range =
       Inl (Rejected (McpError InvalidParams
         (js ''Invalid parameters: Number must be less than or equal to 90'')))"
    by (simp add: dispatch_tools_call request_out_of_range_method local_out_of_range_result)
  have upstream: "dispatch (local_server failing_fetch api_key) request_call =
         Inl (Rejected (McpError InternalError
           (js ''Error fetching weather data: Weather API returned 500: Internal Server Error'')))"
    by (simp add: dispatch_tools_call request_call_method local_upstream_failure_result)
  show "dispatch (local_server fetch api_key) request_out_of_range =
       Inl (Rejected (McpError InvalidParams
         (js ''Invalid parameters: Number must be less than or equal to 90'')))
     \<and> mcp_post sample_parse (local_server fetch api_key) (Inr line_out_of_range) =
         NdjsonResponse parse_error_line ndjson_headers
     \<and> dispatch (local_server failing_fetch api_key) request_call =
         Inl (Rejected (McpError InternalError
           (js ''Error fetching weather data: Weather API returned 500: Internal Server Error'')))
     \<and> mcp_post sample_parse (local_server failing_fetch api_key) (Inr line_call) =
         NdjsonResponse parse_error_line ndjson_headers"
    using handler_failure_reported_as_parse_error
        [where parse = sample_parse and line = line_out_of_range, OF parse_line_out_of_range range]
      handler_failure_reported_as_parse_error
        [where parse = sample_parse and line = line_call, OF parse_line_call upstream]
      range upstream line_call_plain line_out_of_range_plain
    by simp
qed

section \<open>Blank lines and the empty body\<close>

text \<open>
  C10. An empty body is answered with status 400 and \<open>{error: "No request body"}\<close>. For
  any other body the lines that are empty or consist only of whitespace are dropped
  before the loop, every remaining line gets one response, and the response body is
  these responses joined by line feeds: when at least one line is not blank, it splits
  into exactly as many lines as there are non-blank request lines.
\<close>

theorem blank_lines_are_skipped:
  "mcp_post parse server_request (Inr []) =
     JsonResponse (JObject [(js ''error'', JString (js ''No request body''))]) 400
   \<and> request_lines body = filter (\<lambda>line. \<not> blank line) (split newline body)
   \<and> length (process_lines parse server_request (request_lines body) []) =
       length (filter (\<lambda>line. \<not> blank line) (split newline body))
   \<and> (body \<noteq> [] \<longrightarrow>
        mcp_post parse server_request (Inr body) =
          NdjsonResponse (join [newline] (process_lines parse server_request (request_lines body) []))
            ndjson_headers
        \<and> ((\<exists>line \<in> set (split newline body). \<not> blank line) \<longrightarrow>
             split newline (join [newline] (process_lines parse server_request (request_lines body) [])) =
               process_lines parse server_request (request_lines body) []))"
proof (intro conjI impI)
  show "mcp_post parse server_request (Inr []) =
     JsonResponse (JObject [(js ''error'', JString (js ''No request body''))]) 400"
    by (simp add: mcp_post_def truthy_string_def)
  show "request_lines body = filter (\<lambda>line. \<not> blank line) (split newline body)"
    by (rule request_lines_not_blank)
  show "length (process_lines parse server_request (request_lines body) []) =
       length (filter (\<lambda>line. \<not> blank line) (split newline body))"
    by (simp add: process_lines_map request_lines_not_blank)
  show "mcp_post parse server_request (Inr body) =
          NdjsonResponse (join [newline] (process_lines parse server_request (request_lines body) []))
            ndjson_headers" if "body \<noteq> []"
    using that by (simp add: mcp_post_def truthy_string_def)
  show "split newline (join [newline] (process_lines parse server_request (request_lines body) [])) =
               process_lines parse server_request (request_lines body) []"
    if "\<exists>line \<in> set (split newline body). \<not> blank line"
  proof (rule split_join)
    from that show "process_lines parse server_request (request_lines body) [] \<noteq> []"
      by (auto simp: process_lines_map request_lines_not_blank filter_empty_conv)
    show "\<forall>line \<in> set (process_lines parse server_request (request_lines body) []). newline \<notin> set line"
      by (auto simp: process_lines_map newline_not_in_pushed)
  qed
qed

theorem blank_lines_are_skipped_witness:
  "\<forall>server_request :: 'e server_request.
     mcp_post sample_parse server_request (Inr sample_body) =
       NdjsonResponse (unknown_method_line @ newline # parse_error_line) ndjson_headers
     \<and> length (split newline sample_body) = 6
     \<and> length (filter (\<lambda>line. \<not> blank line) (split newline sample_body)) = 2
     \<and> split newline (unknown_method_line @ newline # parse_error_line) =
         [unknown_method_line, parse_error_line]
     \<and> mcp_post sample_parse server_request (Inr []) =
         JsonResponse (JObject [(js ''error'', JString (js ''No request body''))]) 400"
proof (intro allI)
  fix server_request :: "'e server_request"
  have responses: "process_lines sample_parse server_request (request_lines sample_body) [] =
      [unknown_method_line, parse_error_line]"
    by (simp add: process_lines_map request_lines_not_blank sample_body_lines unknown_line_pushed
        line_response_unparsable [where parse = sample_parse, OF parse_not_json] pushed_errorResponse)
  have nonempty: "sample_body \<noteq> []"
    by (simp add: sample_body_def js_def)
  have some: "\<exists>line \<in> set (split newline sample_body). \<not> blank line"
    using sample_body_lines by (metis filter_empty_conv list.distinct(1))
  have count: "length (split newline sample_body) = 6"
    by (simp add: sample_body_def line_unknown_def js_def newline_def)
  from blank_lines_are_skipped [of sample_parse server_request sample_body] nonempty some
  show "mcp_post sample_parse server_request (Inr sample_body) =
       NdjsonResponse (unknown_method_line @ newline # parse_error_line) ndjson_headers
     \<and> length (split newline sample_body) = 6
     \<and> length (filter (\<lambda>line. \<not> blank line) (split newline sample_body)) = 2
     \<and> split newline (unknown_method_line @ newline # parse_error_line) =
         [unknown_method_line, parse_error_line]
     \<and> mcp_post sample_parse server_request (Inr []) =
         JsonResponse (JObject [(js ''error'', JString (js ''No request body''))]) 400"
    by (simp add: responses count)
qed

end
